theory Spec2Isabelle
  imports Main "HOL-Library.Word" "HOL-Library.Multiset"
begin

unbundle bit_operations_syntax

section \<open>Errors and bytes\<close>

text \<open>
  The error values the two packages return. \<open>ErrClosed\<close> is \<open>net.ErrClosed\<close>,
  \<open>EINVAL\<close>, \<open>EAGAIN\<close> and \<open>ECONNRESET\<close> are the syscall errors named in the source,
  \<open>ErrIsEmpty\<close> is \<open>ring.ErrIsEmpty\<close>, \<open>ErrNotFound\<close> is the store's sentinel,
  \<open>Panic\<close> is a run-time panic of Go (an index out of range),
  and \<open>ErrOther n\<close> stands for any other error value (a syscall or storage failure).
\<close>

datatype error =
    ErrClosed | EINVAL | EAGAIN | ECONNRESET | ErrIsEmpty | ErrNotFound | Panic | ErrOther nat

type_synonym byte = "8 word"

section \<open>The connection (package wknet)\<close>

subsection \<open>Ring buffers\<close>

text \<open>
  Modelled from the spec: the \<open>InboundBuffer\<close> and \<open>OutboundBuffer\<close> implementations
  (package ring) are not among the sources. The spec describes them as ring buffers to
  which bytes are appended in arrival order and from which partial reads are legal; the
  connection itself enforces the configured maximum (\<open>overflowForOutbound\<close>). A buffer is
  the list of its unread bytes, oldest first. \<open>Read\<close> copies at most the length of the
  caller's slice and consumes what it copies, reporting \<open>ErrIsEmpty\<close> on an empty ring.
  \<open>Release\<close> hands the storage back and leaves nothing to read.
\<close>

definition ring_IsEmpty :: "byte list \<Rightarrow> bool" where
  "ring_IsEmpty rb = (rb = [])"

definition ring_BoundBufferSize :: "byte list \<Rightarrow> int" where
  "ring_BoundBufferSize rb = int (length rb)"

definition ring_Write :: "byte list \<Rightarrow> byte list \<Rightarrow> (int \<times> error option) \<times> byte list" where
  "ring_Write rb b = ((int (length b), None), rb @ b)"

definition ring_Read :: "byte list \<Rightarrow> nat \<Rightarrow> (int \<times> error option) \<times> byte list \<times> byte list" where
  "ring_Read rb len =
     (if rb = [] then ((0, Some ErrIsEmpty), [], rb)
      else ((int (min len (length rb)), None), take len rb, drop len rb))"

definition ring_Peek_all :: "byte list \<Rightarrow> byte list \<times> byte list" where
  "ring_Peek_all rb = (rb, [])"

definition ring_Discard :: "byte list \<Rightarrow> int \<Rightarrow> byte list" where
  "ring_Discard rb n = drop (nat n) rb"

definition ring_Release :: "byte list \<Rightarrow> byte list" where
  "ring_Release rb = []"

subsection \<open>DefaultConn\<close>

text \<open>
  The fields of \<open>DefaultConn\<close> that its I/O methods read or write. The file descriptor
  is represented by what has been written to it (\<open>fdOut\<close>) and whether it is open; the
  poller of the sub-reactor by two flags: the fd is registered, and writable interest is
  armed (\<open>AddWrite\<close> / \<open>RemoveWrite\<close>). \<open>onCloseCalls\<close> counts the invocations of the
  \<open>OnClose\<close> handler, \<open>pooled\<close> records that \<open>release\<close> returned the object to the
  engine's pool. \<open>maxWriteBufferSize\<close> is \<open>eg.options.MaxWriteBufferSize\<close>.
\<close>

record DefaultConn =
  closed :: bool
  inboundBuffer :: "byte list"
  outboundBuffer :: "byte list"
  fdOut :: "byte list"
  fdOpen :: bool
  registered :: bool
  writeInterest :: bool
  onCloseCalls :: nat
  pooled :: bool
  maxWriteBufferSize :: int

text \<open>\<open>reactorSub.AddWrite\<close>, \<open>RemoveWrite\<close> and \<open>DeleteFd\<close> act on the poller flags.\<close>

definition addWriteIfNotExist :: "DefaultConn \<Rightarrow> error option \<times> DefaultConn" where
  "addWriteIfNotExist d =
     (if closed d then (Some ErrClosed, d)
      else (None, d\<lparr>writeInterest := True\<rparr>))"

definition removeWriteIfExist :: "DefaultConn \<Rightarrow> error option \<times> DefaultConn" where
  "removeWriteIfExist d =
     (if closed d then (Some ErrClosed, d)
      else (None, d\<lparr>writeInterest := False\<rparr>))"

definition overflowForOutbound :: "DefaultConn \<Rightarrow> int \<Rightarrow> bool" where
  "overflowForOutbound d n =
     (maxWriteBufferSize d > 0 \<and>
      ring_BoundBufferSize (outboundBuffer d) + n > maxWriteBufferSize d)"

text \<open>\<open>release\<close>: the fd is zeroed, both ring buffers are released, the object is pooled.\<close>

definition release :: "DefaultConn \<Rightarrow> DefaultConn" where
  "release d =
     d\<lparr>inboundBuffer := ring_Release (inboundBuffer d),
       outboundBuffer := ring_Release (outboundBuffer d),
       pooled := True\<rparr>"

text \<open>
  \<open>closeNeedLock\<close>. The argument is the close error, \<open>None\<close> for \<open>Close()\<close>. The fd
  is taken out of the poller (\<open>DeleteFd\<close>) only for an error other than \<open>ECONNRESET\<close>;
  then the fd is closed, \<open>OnClose\<close> is called and the connection is released.
\<close>

definition closeNeedLock :: "DefaultConn \<Rightarrow> error option \<Rightarrow> error option \<times> DefaultConn" where
  "closeNeedLock d closeErr =
     (if closed d then (None, d)
      else
        let d1 = d\<lparr>closed := True\<rparr>;
            d2 = (if closeErr \<noteq> None \<and> closeErr \<noteq> Some ECONNRESET
                  then d1\<lparr>registered := False, writeInterest := False\<rparr> else d1);
            d3 = d2\<lparr>fdOpen := False\<rparr>;
            d4 = d3\<lparr>onCloseCalls := Suc (onCloseCalls d3)\<rparr>
        in (None, release d4))"

definition Close :: "DefaultConn \<Rightarrow> error option \<times> DefaultConn" where
  "Close d = closeNeedLock d None"

definition CloseWithErr :: "DefaultConn \<Rightarrow> error \<Rightarrow> error option \<times> DefaultConn" where
  "CloseWithErr d err = closeNeedLock d (Some err)"

text \<open>
  \<open>Read(buf)\<close>: the argument is \<open>len(buf)\<close>; the result is \<open>(n, err)\<close>, the bytes
  copied into \<open>buf\<close>, and the connection afterwards.
\<close>

definition Read :: "DefaultConn \<Rightarrow> nat \<Rightarrow> (int \<times> error option) \<times> byte list \<times> DefaultConn" where
  "Read d len =
     (if ring_IsEmpty (inboundBuffer d) then ((0, None), [], d)
      else
        (case ring_Read (inboundBuffer d) len of
           ((n, err), bs, rb) \<Rightarrow>
             if n = int len then ((n, None), bs, d\<lparr>inboundBuffer := rb\<rparr>)
             else ((n, err), bs, d\<lparr>inboundBuffer := rb\<rparr>)))"

definition conn_write :: "DefaultConn \<Rightarrow> byte list \<Rightarrow> (int \<times> error option) \<times> DefaultConn" where
  "conn_write d b =
     (if closed d then ((- 1, Some ErrClosed), d)
      else if length b = 0 then ((0, None), d)
      else if overflowForOutbound d (int (length b)) then ((0, Some EINVAL), d)
      else
        (case ring_Write (outboundBuffer d) b of
           ((n, Some err), rb) \<Rightarrow> ((0, Some err), d\<lparr>outboundBuffer := rb\<rparr>)
         | ((n, None), rb) \<Rightarrow>
             (case addWriteIfNotExist (d\<lparr>outboundBuffer := rb\<rparr>) of
                (Some err, d') \<Rightarrow> ((n, Some err), d')
              | (None, d') \<Rightarrow> ((n, None), d'))))"

text \<open>\<open>write\<close> is named \<open>conn_write\<close> here, \<open>TLSConn.d\<close> is \<open>tls_d\<close>.\<close>

definition Write :: "DefaultConn \<Rightarrow> byte list \<Rightarrow> (int \<times> error option) \<times> DefaultConn" where
  "Write d b =
     (if closed d then ((- 1, Some ErrClosed), d)
      else
        (case conn_write d b of
           ((n, Some err), d') \<Rightarrow> ((0, Some err), d')
         | ((n, None), d') \<Rightarrow> ((n, None), d')))"

definition WriteToOutboundBuffer :: "DefaultConn \<Rightarrow> byte list \<Rightarrow> (int \<times> error option) \<times> DefaultConn" where
  "WriteToOutboundBuffer d b =
     (if length b = 0 then ((0, None), d)
      else if closed d then ((- 1, Some ErrClosed), d)
      else
        (case ring_Write (outboundBuffer d) b of
           (res, rb) \<Rightarrow> (res, d\<lparr>outboundBuffer := rb\<rparr>)))"

text \<open>
  \<open>writeDirect(head, tail)\<close>. \<open>fdWrite\<close> is the outcome of the \<open>fd.Write\<close> system
  call on the bytes offered: how many were accepted and the error, if any.
\<close>

definition writeDirect ::
  "(byte list \<Rightarrow> int \<times> error option) \<Rightarrow> DefaultConn \<Rightarrow> byte list \<Rightarrow> byte list
     \<Rightarrow> (int \<times> error option) \<times> DefaultConn" where
  "writeDirect fdWrite d head tail =
     (if closed d then ((- 1, Some ErrClosed), d)
      else
        let bs = (if length head > 0 \<and> length tail > 0 then head @ tail
                  else if length head > 0 then head
                  else if length tail > 0 then tail else [])
        in if bs = [] then ((0, None), d)
           else (case fdWrite bs of
                   (n, err) \<Rightarrow> ((n, err), d\<lparr>fdOut := fdOut d @ take (nat n) bs\<rparr>)))"

text \<open>
  \<open>flush\<close>. \<open>reactorSub.CloseConn\<close> is not among the sources; it is taken to close the
  connection with the error, as the spec's failure model says (any write error other than
  \<open>EAGAIN\<close> forces close with the error).
\<close>

definition flush :: "(byte list \<Rightarrow> int \<times> error option) \<Rightarrow> DefaultConn \<Rightarrow> error option \<times> DefaultConn" where
  "flush fdWrite d =
     (if closed d then (Some ErrClosed, d)
      else if ring_IsEmpty (outboundBuffer d) then (None, snd (removeWriteIfExist d))
      else
        (case ring_Peek_all (outboundBuffer d) of
           (head, tail) \<Rightarrow>
             (case writeDirect fdWrite d head tail of
                ((n, err), d1) \<Rightarrow>
                  let d2 = d1\<lparr>outboundBuffer := ring_Discard (outboundBuffer d1) n\<rparr>;
                      d3 = (case err of
                              None \<Rightarrow> d2
                            | Some EAGAIN \<Rightarrow> d2
                            | Some e \<Rightarrow> snd (CloseWithErr d2 e))
                  in if ring_IsEmpty (outboundBuffer d3)
                     then (None, snd (removeWriteIfExist d3))
                     else (None, d3))))"

definition Flush :: "(byte list \<Rightarrow> int \<times> error option) \<Rightarrow> DefaultConn \<Rightarrow> error option \<times> DefaultConn" where
  "Flush fdWrite d = (if closed d then (Some ErrClosed, d) else flush fdWrite d)"

subsection \<open>TLSConn\<close>

text \<open>
  A \<open>TLSConn\<close> wraps a \<open>DefaultConn\<close> and owns the staging ring \<open>tmpInboundBuffer\<close>;
  the TLS state machine itself (\<open>tlsconn\<close>) plays no part in the methods modelled here.
\<close>

record TLSConn =
  tls_d :: DefaultConn
  tmpInboundBuffer :: "byte list"

definition TLS_Close :: "TLSConn \<Rightarrow> error option \<times> TLSConn" where
  "TLS_Close t =
     (case Close (tls_d t) of
        (err, d') \<Rightarrow> (err, t\<lparr>tmpInboundBuffer := ring_Release (tmpInboundBuffer t), tls_d := d'\<rparr>))"

definition TLS_WriteToOutboundBuffer :: "TLSConn \<Rightarrow> byte list \<Rightarrow> (int \<times> error option) \<times> TLSConn" where
  "TLS_WriteToOutboundBuffer t b =
     (case ring_Write (outboundBuffer (tls_d t)) b of
        (res, rb) \<Rightarrow> (res, t\<lparr>tls_d := (tls_d t)\<lparr>outboundBuffer := rb\<rparr>\<rparr>))"

definition TLS_Flush :: "(byte list \<Rightarrow> int \<times> error option) \<Rightarrow> TLSConn \<Rightarrow> error option \<times> TLSConn" where
  "TLS_Flush fdWrite t = (case Flush fdWrite (tls_d t) of (err, d') \<Rightarrow> (err, t\<lparr>tls_d := d'\<rparr>))"

text \<open>A freshly accepted connection, as \<open>GetDefaultConn\<close> sets it up.\<close>

definition newConn :: "int \<Rightarrow> DefaultConn" where
  "newConn maxW =
     \<lparr>closed = False, inboundBuffer = [], outboundBuffer = [], fdOut = [], fdOpen = True,
      registered = True, writeInterest = False, onCloseCalls = 0, pooled = False,
      maxWriteBufferSize = maxW\<rparr>"

section \<open>The conversation store (package wkdb)\<close>

subsection \<open>Rows\<close>

text \<open>
  A \<open>*time.Time\<close> is represented by its \<open>UnixNano()\<close>, an \<open>int64\<close> held in a
  64-bit word and read with \<open>sint\<close>; \<open>None\<close> is the nil pointer. The conversion
  \<open>uint64(t.UnixNano())\<close> is then the word itself, and \<open>time.Unix(tm/1e9, tm%1e9)\<close> is
  the time whose \<open>UnixNano()\<close> is \<open>tm\<close>.
\<close>

type_synonym u64 = "64 word"

record Conversation =
  Id :: u64
  Uid :: string
  Type :: byte
  ChannelId :: string
  ChannelType :: byte
  UnreadCount :: "32 word"
  ReadToMsgSeq :: u64
  DeletedAtMsgSeq :: u64
  CreatedAt :: "u64 option"
  UpdatedAt :: "u64 option"

text \<open>\<open>EmptyConversation\<close> is the zero value \<open>Conversation{}\<close>.\<close>

definition EmptyConversation :: Conversation where
  "EmptyConversation =
     \<lparr>Id = 0, Uid = [], Type = 0, ChannelId = [], ChannelType = 0, UnreadCount = 0,
      ReadToMsgSeq = 0, DeletedAtMsgSeq = 0, CreatedAt = None, UpdatedAt = None\<rparr>"

definition After :: "u64 \<Rightarrow> u64 \<Rightarrow> bool" where
  "After t u = (u <s t)"

subsection \<open>Keys and values\<close>

text \<open>
  Modelled from the spec: package key is not among the sources. The spec gives the
  layout: a row is one key per column, \<open>P/uid/id/columnTag\<close>; the channel index
  \<open>I/channel/uid/channelId/channelType\<close> holds the id; the secondary indexes
  \<open>I/type\<close>, \<open>I/createdAt\<close>, \<open>I/updatedAt\<close> are keys \<open>uid/value/id\<close> with an empty
  value; the reverse index \<open>R/channelId/channelType/uid\<close> lives in the channel's shard.
  Keys are kept in parsed form, so \<open>ParseConversationColumnKey\<close> cannot fail here.
\<close>

datatype Column =
    Col_Uid | Col_ChannelId | Col_ChannelType | Col_Type | Col_UnreadCount
  | Col_ReadedToMsgSeq | Col_CreatedAt | Col_UpdatedAt | Col_DeletedAtMsgSeq

datatype SecondIndex = Idx_Type | Idx_CreatedAt | Idx_UpdatedAt

datatype dbkey =
    ConversationColumnKey string u64 Column
  | ConversationIndexChannelKey string string byte
  | ConversationSecondIndexKey string SecondIndex u64 u64
  | ConversationLocalUserKey string byte string

text \<open>
  The columns of a row in the order an iterator meets them. The tags are not among
  the sources; every column sets a field of its own, so the order within one row does
  not change the row that is assembled.
\<close>

definition columns :: "Column list" where
  "columns = [Col_Uid, Col_ChannelId, Col_ChannelType, Col_Type, Col_UnreadCount,
              Col_ReadedToMsgSeq, Col_CreatedAt, Col_UpdatedAt, Col_DeletedAtMsgSeq]"

text \<open>\<open>wk.endian\<close> is big-endian (\<open>binary.BigEndian\<close>); reading a short slice panics.\<close>

definition PutUint64 :: "u64 \<Rightarrow> byte list" where
  "PutUint64 v = [ucast (drop_bit 56 v), ucast (drop_bit 48 v), ucast (drop_bit 40 v),
                  ucast (drop_bit 32 v), ucast (drop_bit 24 v), ucast (drop_bit 16 v),
                  ucast (drop_bit 8 v), ucast v]"

definition Uint64 :: "byte list \<Rightarrow> u64 option" where
  "Uint64 b = (case b of
      b0 # b1 # b2 # b3 # b4 # b5 # b6 # b7 # _ \<Rightarrow>
        Some (ucast b7 OR push_bit 8 (ucast b6) OR push_bit 16 (ucast b5)
           OR push_bit 24 (ucast b4) OR push_bit 32 (ucast b3) OR push_bit 40 (ucast b2)
           OR push_bit 48 (ucast b1) OR push_bit 56 (ucast b0))
    | _ \<Rightarrow> None)"

definition PutUint32 :: "32 word \<Rightarrow> byte list" where
  "PutUint32 v = [ucast (drop_bit 24 v), ucast (drop_bit 16 v), ucast (drop_bit 8 v), ucast v]"

definition Uint32 :: "byte list \<Rightarrow> 32 word option" where
  "Uint32 b = (case b of
      b0 # b1 # b2 # b3 # _ \<Rightarrow>
        Some (ucast b3 OR push_bit 8 (ucast b2) OR push_bit 16 (ucast b1)
           OR push_bit 24 (ucast b0))
    | _ \<Rightarrow> None)"

text \<open>\<open>[]byte(s)\<close> and \<open>string(b)\<close>: a Go string is its bytes.\<close>

definition bytes_of_string :: "string \<Rightarrow> byte list" where
  "bytes_of_string s = map (\<lambda>c. of_nat (of_char c)) s"

definition string_of_bytes :: "byte list \<Rightarrow> string" where
  "string_of_bytes b = map (\<lambda>w. char_of (unat w)) b"

subsection \<open>One shard: a key-value store\<close>

text \<open>
  Modelled from the spec: the LSM store (pebble) and \<open>Batch\<close> are not among the
  sources. A shard is an association list from keys to values; the first entry of a key
  is its value. A batch is the list of its writes in program order; committing applies
  them in that order, atomically on its shard, or fails and leaves the shard as it was.
  \<open>Op_DeleteRange uid id\<close> is the range delete from
  \<open>NewConversationColumnKey(uid, id, MinColumnKey)\<close> to
  \<open>NewConversationColumnKey(uid, id, MaxColumnKey)\<close>: all column keys of that row.
\<close>

type_synonym kv = "(dbkey \<times> byte list) list"

definition kv_get :: "kv \<Rightarrow> dbkey \<Rightarrow> byte list option" where
  "kv_get db k = map_of db k"

definition kv_set :: "dbkey \<Rightarrow> byte list \<Rightarrow> kv \<Rightarrow> kv" where
  "kv_set k v db = (k, v) # filter (\<lambda>p. fst p \<noteq> k) db"

definition kv_delete :: "dbkey \<Rightarrow> kv \<Rightarrow> kv" where
  "kv_delete k db = filter (\<lambda>p. fst p \<noteq> k) db"

fun isColumnKeyOf :: "string \<Rightarrow> u64 \<Rightarrow> dbkey \<Rightarrow> bool" where
  "isColumnKeyOf uid i (ConversationColumnKey u j c) = (u = uid \<and> j = i)"
| "isColumnKeyOf uid i (ConversationIndexChannelKey u ch ct) = False"
| "isColumnKeyOf uid i (ConversationSecondIndexKey u x v j) = False"
| "isColumnKeyOf uid i (ConversationLocalUserKey ch ct u) = False"

definition kv_delete_range :: "string \<Rightarrow> u64 \<Rightarrow> kv \<Rightarrow> kv" where
  "kv_delete_range uid i db = filter (\<lambda>p. \<not> isColumnKeyOf uid i (fst p)) db"

datatype batch_op = Op_Set dbkey "byte list" | Op_Delete dbkey | Op_DeleteRange string u64

fun apply_op :: "kv \<Rightarrow> batch_op \<Rightarrow> kv" where
  "apply_op db (Op_Set k v) = kv_set k v db"
| "apply_op db (Op_Delete k) = kv_delete k db"
| "apply_op db (Op_DeleteRange uid i) = kv_delete_range uid i db"

definition apply_ops :: "batch_op list \<Rightarrow> kv \<Rightarrow> kv" where
  "apply_ops ops db = foldl apply_op db ops"

record Batch =
  batch_shard :: nat
  batch_ops :: "batch_op list"

text \<open>
  \<open>Commit\<close> / \<open>CommitWait\<close>: the first argument is the outcome the storage layer
  reports for this commit, \<open>None\<close> for success.
\<close>

definition Commit :: "error option \<Rightarrow> Batch \<Rightarrow> (nat \<Rightarrow> kv) \<Rightarrow> error option \<times> (nat \<Rightarrow> kv)" where
  "Commit outcome b shards =
     (case outcome of
        Some e \<Rightarrow> (Some e, shards)
      | None \<Rightarrow>
          (None, shards(batch_shard b := apply_ops (batch_ops b) (shards (batch_shard b)))))"

text \<open>
  Modelled from the spec: \<open>Commits\<close> is not among the sources; the spec says it commits
  each batch and reports the first error. \<open>outcome i\<close> is the outcome of the commit of
  the \<open>i\<close>-th batch. The batches come out of a Go map, whose order of iteration is not
  fixed; here they are taken in the order in which they were created.
\<close>

fun Commits :: "(nat \<Rightarrow> error option) \<Rightarrow> nat \<Rightarrow> Batch list \<Rightarrow> (nat \<Rightarrow> kv) \<Rightarrow> error option \<times> (nat \<Rightarrow> kv)" where
  "Commits outcome i [] shards = (None, shards)"
| "Commits outcome i (b # bs) shards =
     (case Commit (outcome i) b shards of
        (e, shards1) \<Rightarrow>
          (case Commits outcome (Suc i) bs shards1 of
             (e', shards2) \<Rightarrow> ((case e of Some x \<Rightarrow> Some x | None \<Rightarrow> e'), shards2)))"

text \<open>The loop \<open>for _, batch := range batchs { err := batch.Commit(); if err != nil { return err } }\<close>.\<close>

fun commitEach :: "(nat \<Rightarrow> error option) \<Rightarrow> nat \<Rightarrow> Batch list \<Rightarrow> (nat \<Rightarrow> kv) \<Rightarrow> error option \<times> (nat \<Rightarrow> kv)" where
  "commitEach outcome i [] shards = (None, shards)"
| "commitEach outcome i (b # bs) shards =
     (case Commit (outcome i) b shards of
        (Some e, shards1) \<Rightarrow> (Some e, shards1)
      | (None, shards1) \<Rightarrow> commitEach outcome (Suc i) bs shards1)"

subsection \<open>The store object\<close>

text \<open>
  Modelled from the spec: the conversation cache is not among the sources. The spec
  says it holds, per uid, optionally the most recent \<open>GetLastConversations\<close> result,
  keyed by \<open>(type, since, excludeSet, limit)\<close>, and that \<open>InvalidateUserConversations\<close>
  drops all entries of the uid.
\<close>

type_synonym query = "byte \<times> u64 \<times> byte list \<times> int"

type_synonym cache = "string \<Rightarrow> (query \<times> Conversation list) option"

definition cache_GetLastConversations :: "cache \<Rightarrow> string \<Rightarrow> query \<Rightarrow> Conversation list option" where
  "cache_GetLastConversations ca uid q =
     (case ca uid of
        None \<Rightarrow> None
      | Some (q', res) \<Rightarrow> if q' = q then Some res else None)"

definition cache_SetLastConversations :: "cache \<Rightarrow> string \<Rightarrow> query \<Rightarrow> Conversation list \<Rightarrow> cache" where
  "cache_SetLastConversations ca uid q res = ca(uid \<mapsto> (q, res))"

definition InvalidateUserConversations :: "cache \<Rightarrow> string \<Rightarrow> cache" where
  "InvalidateUserConversations ca uid = ca(uid := None)"

text \<open>
  \<open>wukongDB\<close>: the shards \<open>wk.dbs\<close> by shard id and the cache, together with the helpers
  of the receiver that are not among the sources and are left as parameters: the shard of
  a uid (\<open>shardId\<close>; \<open>shardDB\<close>, \<open>sharedBatchDB\<close> and \<open>shardBatchDBById\<close> all select it),
  the shard of a channel (\<open>channelDb\<close>, \<open>channelBatchDb\<close>), \<open>IsEmptyConversation\<close>, and
  the cache's \<open>UpdateConversationsInCache\<close>.
\<close>

record wukongDB =
  dbs :: "nat \<Rightarrow> kv"
  conversationCache :: cache
  shardId :: "string \<Rightarrow> nat"
  channelShardId :: "string \<Rightarrow> byte \<Rightarrow> nat"
  IsEmptyConversation :: "Conversation \<Rightarrow> bool"
  UpdateConversationsInCache :: "Conversation list \<Rightarrow> cache \<Rightarrow> cache"

definition shardDB :: "wukongDB \<Rightarrow> string \<Rightarrow> kv" where
  "shardDB wk uid = dbs wk (shardId wk uid)"

subsection \<open>Reading rows\<close>

text \<open>The \<open>switch columnName\<close> of \<open>iterateConversation\<close>; \<open>None\<close> is a panic.\<close>

definition setColumn :: "Column \<Rightarrow> byte list \<Rightarrow> Conversation \<Rightarrow> Conversation option" where
  "setColumn col v c =
     (case col of
        Col_Uid \<Rightarrow> Some (c\<lparr>Uid := string_of_bytes v\<rparr>)
      | Col_Type \<Rightarrow> (case v of [] \<Rightarrow> None | x # _ \<Rightarrow> Some (c\<lparr>Type := x\<rparr>))
      | Col_ChannelId \<Rightarrow> Some (c\<lparr>ChannelId := string_of_bytes v\<rparr>)
      | Col_ChannelType \<Rightarrow> (case v of [] \<Rightarrow> None | x # _ \<Rightarrow> Some (c\<lparr>ChannelType := x\<rparr>))
      | Col_UnreadCount \<Rightarrow>
          (case Uint32 v of None \<Rightarrow> None | Some w \<Rightarrow> Some (c\<lparr>UnreadCount := w\<rparr>))
      | Col_ReadedToMsgSeq \<Rightarrow>
          (case Uint64 v of None \<Rightarrow> None | Some w \<Rightarrow> Some (c\<lparr>ReadToMsgSeq := w\<rparr>))
      | Col_CreatedAt \<Rightarrow>
          (case Uint64 v of
             None \<Rightarrow> None
           | Some tm \<Rightarrow> Some (if 0 <s tm then c\<lparr>CreatedAt := Some tm\<rparr> else c))
      | Col_UpdatedAt \<Rightarrow>
          (case Uint64 v of
             None \<Rightarrow> None
           | Some tm \<Rightarrow> Some (if 0 <s tm then c\<lparr>UpdatedAt := Some tm\<rparr> else c))
      | Col_DeletedAtMsgSeq \<Rightarrow>
          (case Uint64 v of None \<Rightarrow> None | Some w \<Rightarrow> Some (c\<lparr>DeletedAtMsgSeq := w\<rparr>)))"

text \<open>
  The loop of \<open>iterateConversation\<close> over the entries \<open>(id, columnName, value)\<close> the
  iterator yields, with the loop variables \<open>preId\<close>, \<open>preConversation\<close> and \<open>hasData\<close>.
  The callback \<open>iterFnc\<close> returns whether to go on, and the new value of the variables it
  captures. A \<open>break\<close> clears \<open>lastNeedAppend\<close>, so nothing is yielded after it.
\<close>

fun iterateLoop ::
  "(Conversation \<Rightarrow> 'a \<Rightarrow> bool \<times> 'a) \<Rightarrow> (u64 \<times> Column \<times> byte list) list \<Rightarrow> u64
     \<Rightarrow> Conversation \<Rightarrow> bool \<Rightarrow> 'a \<Rightarrow> error + 'a" where
  "iterateLoop iterFnc [] preId pre hasData acc =
     Inr (if hasData then snd (iterFnc pre acc) else acc)"
| "iterateLoop iterFnc ((i, col, v) # es) preId pre hasData acc =
     (if preId \<noteq> i then
        (if preId \<noteq> 0 then
           (case iterFnc pre acc of
              (cont, acc') \<Rightarrow>
                if \<not> cont then Inr acc'
                else
                  (case setColumn col v (EmptyConversation\<lparr>Id := i\<rparr>) of
                     None \<Rightarrow> Inl Panic
                   | Some c \<Rightarrow> iterateLoop iterFnc es i c True acc'))
         else
           (case setColumn col v (EmptyConversation\<lparr>Id := i\<rparr>) of
              None \<Rightarrow> Inl Panic
            | Some c \<Rightarrow> iterateLoop iterFnc es i c True acc))
      else
        (case setColumn col v pre of
           None \<Rightarrow> Inl Panic
         | Some c \<Rightarrow> iterateLoop iterFnc es preId c True acc))"

definition iterateConversation ::
  "(u64 \<times> Column \<times> byte list) list \<Rightarrow> (Conversation \<Rightarrow> 'a \<Rightarrow> bool \<times> 'a) \<Rightarrow> 'a \<Rightarrow> error + 'a" where
  "iterateConversation entries iterFnc acc = iterateLoop iterFnc entries 0 EmptyConversation False acc"

text \<open>
  What an iterator yields. \<open>rowEntries\<close>: the bounds
  \<open>[NewConversationColumnKey(uid, id, MinColumnKey), NewConversationColumnKey(uid, id, MaxColumnKey))\<close>,
  the columns of one row. \<open>primaryEntries\<close>: the bounds
  \<open>[NewConversationPrimaryKey(uid, 0), NewConversationPrimaryKey(uid, math.MaxUint64))\<close>,
  the columns of the rows of the uid by ascending id; the upper bound is exclusive, so
  the row with id \<open>MaxUint64\<close> lies outside.
\<close>

definition rowEntries :: "kv \<Rightarrow> string \<Rightarrow> u64 \<Rightarrow> (u64 \<times> Column \<times> byte list) list" where
  "rowEntries db uid i =
     concat (map (\<lambda>c. case kv_get db (ConversationColumnKey uid i c) of
                         None \<Rightarrow> []
                       | Some v \<Rightarrow> [(i, c, v)]) columns)"

fun columnKeyId :: "string \<Rightarrow> dbkey \<Rightarrow> u64 option" where
  "columnKeyId uid (ConversationColumnKey u j c) = (if u = uid then Some j else None)"
| "columnKeyId uid (ConversationIndexChannelKey u ch ct) = None"
| "columnKeyId uid (ConversationSecondIndexKey u x v j) = None"
| "columnKeyId uid (ConversationLocalUserKey ch ct u) = None"

definition primaryIds :: "kv \<Rightarrow> string \<Rightarrow> u64 list" where
  "primaryIds db uid =
     sort (remdups (filter (\<lambda>i. i \<noteq> - 1) (List.map_filter (\<lambda>p. columnKeyId uid (fst p)) db)))"

definition primaryEntries :: "kv \<Rightarrow> string \<Rightarrow> (u64 \<times> Column \<times> byte list) list" where
  "primaryEntries db uid = concat (map (rowEntries db uid) (primaryIds db uid))"

text \<open>
  \<open>getConversationIdByChannel\<close>. A storage error of \<open>Get\<close> other than not-found has no
  counterpart: the shard is a value. \<open>wk.endian.Uint64\<close> panics on a short value.
\<close>

definition getConversationIdByChannel :: "wukongDB \<Rightarrow> string \<Rightarrow> string \<Rightarrow> byte \<Rightarrow> error + u64" where
  "getConversationIdByChannel wk uid channelId channelType =
     (case kv_get (shardDB wk uid) (ConversationIndexChannelKey uid channelId channelType) of
        None \<Rightarrow> Inr 0
      | Some idBytes \<Rightarrow> (case Uint64 idBytes of None \<Rightarrow> Inl Panic | Some i \<Rightarrow> Inr i))"

definition GetConversation :: "wukongDB \<Rightarrow> string \<Rightarrow> string \<Rightarrow> byte \<Rightarrow> error + Conversation" where
  "GetConversation wk uid channelId channelType =
     (case getConversationIdByChannel wk uid channelId channelType of
        Inl err \<Rightarrow> Inl err
      | Inr i \<Rightarrow>
          if i = 0 then Inl ErrNotFound
          else
            (case iterateConversation (rowEntries (shardDB wk uid) uid i)
                    (\<lambda>cn conversation. (False, cn)) EmptyConversation of
               Inl err \<Rightarrow> Inl err
             | Inr conversation \<Rightarrow>
                 if conversation = EmptyConversation then Inl ErrNotFound
                 else Inr conversation))"

definition GetConversations :: "wukongDB \<Rightarrow> string \<Rightarrow> error + Conversation list" where
  "GetConversations wk uid =
     iterateConversation (primaryEntries (shardDB wk uid) uid)
       (\<lambda>conversation conversations. (True, conversations @ [conversation])) []"

definition getConversations :: "wukongDB \<Rightarrow> string \<Rightarrow> string \<Rightarrow> byte \<Rightarrow> error + Conversation list" where
  "getConversations wk uid channelId channelType =
     iterateConversation (primaryEntries (shardDB wk uid) uid)
       (\<lambda>conversation conversations.
          (True, if ChannelId conversation = channelId \<and> ChannelType conversation = channelType
                 then conversations @ [conversation] else conversations)) []"

subsection \<open>GetLastConversations\<close>

text \<open>
  The callback of the scan: the type filter, the excluded channel types, the time
  filter. \<open>updatedAt\<close> is the \<open>since\<close> argument; the comparison is between \<open>uint64\<close>s.
\<close>

definition lastFilter :: "byte \<Rightarrow> u64 \<Rightarrow> byte list \<Rightarrow> Conversation \<Rightarrow> bool" where
  "lastFilter tp updatedAt excludeChannelTypes conversation =
     (if Type conversation \<noteq> tp then False
      else if length excludeChannelTypes > 0 \<and> ChannelType conversation \<in> set excludeChannelTypes
      then False
      else (updatedAt = 0 \<or>
            (case UpdatedAt conversation of None \<Rightarrow> False | Some t \<Rightarrow> updatedAt \<le> t)))"

text \<open>The \<open>less\<close> function given to \<open>sort.Slice\<close>.\<close>

definition lessUpdatedAt :: "Conversation \<Rightarrow> Conversation \<Rightarrow> bool" where
  "lessUpdatedAt c1 c2 =
     (case UpdatedAt c1 of
        None \<Rightarrow> False
      | Some t1 \<Rightarrow> (case UpdatedAt c2 of None \<Rightarrow> True | Some t2 \<Rightarrow> After t1 t2))"

text \<open>
  \<open>sort.Slice\<close> belongs to Go's library: it leaves the slice a permutation of itself in
  which no element is \<open>less\<close> than one before it, and promises no order among equal
  elements. It is represented by an insertion sort; the properties below use only what
  every such sort guarantees.
\<close>

fun insertBy :: "('a \<Rightarrow> 'a \<Rightarrow> bool) \<Rightarrow> 'a \<Rightarrow> 'a list \<Rightarrow> 'a list" where
  "insertBy lt x [] = [x]"
| "insertBy lt x (y # ys) = (if lt y x then y # insertBy lt x ys else x # y # ys)"

definition sort_Slice :: "('a \<Rightarrow> 'a \<Rightarrow> bool) \<Rightarrow> 'a list \<Rightarrow> 'a list" where
  "sort_Slice lt xs = foldr (insertBy lt) xs []"

definition applyLimit :: "int \<Rightarrow> 'a list \<Rightarrow> 'a list" where
  "applyLimit limit allConversations =
     (if limit > 0 \<and> int (length allConversations) > limit
      then take (nat limit) allConversations else allConversations)"

definition GetLastConversations ::
  "wukongDB \<Rightarrow> string \<Rightarrow> byte \<Rightarrow> u64 \<Rightarrow> byte list \<Rightarrow> int \<Rightarrow> (error + Conversation list) \<times> wukongDB" where
  "GetLastConversations wk uid tp updatedAt excludeChannelTypes limit =
     (case cache_GetLastConversations (conversationCache wk) uid
             (tp, updatedAt, excludeChannelTypes, limit) of
        Some cached \<Rightarrow> (Inr cached, wk)
      | None \<Rightarrow>
          (case iterateConversation (primaryEntries (shardDB wk uid) uid)
                  (\<lambda>conversation allConversations.
                     (True, if lastFilter tp updatedAt excludeChannelTypes conversation
                            then allConversations @ [conversation] else allConversations)) [] of
             Inl err \<Rightarrow> (Inl err, wk)
           | Inr allConversations \<Rightarrow>
               let filteredConversations =
                     applyLimit limit (sort_Slice lessUpdatedAt allConversations)
               in (Inr filteredConversations,
                   wk\<lparr>conversationCache :=
                        cache_SetLastConversations (conversationCache wk) uid
                          (tp, updatedAt, excludeChannelTypes, limit) filteredConversations\<rparr>)))"

subsection \<open>Writing rows\<close>

definition writeConversationIndex :: "Conversation \<Rightarrow> batch_op list" where
  "writeConversationIndex conversation =
     [Op_Set (ConversationIndexChannelKey (Uid conversation) (ChannelId conversation)
                (ChannelType conversation)) (PutUint64 (Id conversation)),
      Op_Set (ConversationSecondIndexKey (Uid conversation) Idx_Type
                (ucast (Type conversation)) (Id conversation)) []]
     @ (case CreatedAt conversation of
          None \<Rightarrow> []
        | Some t \<Rightarrow> [Op_Set (ConversationSecondIndexKey (Uid conversation) Idx_CreatedAt t
                              (Id conversation)) []])
     @ (case UpdatedAt conversation of
          None \<Rightarrow> []
        | Some t \<Rightarrow> [Op_Set (ConversationSecondIndexKey (Uid conversation) Idx_UpdatedAt t
                              (Id conversation)) []])"

definition writeConversation :: "Conversation \<Rightarrow> batch_op list" where
  "writeConversation conversation =
     (let i = Id conversation; uid = Uid conversation in
      [Op_Set (ConversationColumnKey uid i Col_Uid) (bytes_of_string uid),
       Op_Set (ConversationColumnKey uid i Col_ChannelId) (bytes_of_string (ChannelId conversation)),
       Op_Set (ConversationColumnKey uid i Col_ChannelType) [ChannelType conversation],
       Op_Set (ConversationColumnKey uid i Col_Type) [Type conversation],
       Op_Set (ConversationColumnKey uid i Col_UnreadCount) (PutUint32 (UnreadCount conversation)),
       Op_Set (ConversationColumnKey uid i Col_ReadedToMsgSeq) (PutUint64 (ReadToMsgSeq conversation))]
      @ (case CreatedAt conversation of
           None \<Rightarrow> []
         | Some t \<Rightarrow> [Op_Set (ConversationColumnKey uid i Col_CreatedAt) (PutUint64 t)])
      @ (case UpdatedAt conversation of
           None \<Rightarrow> []
         | Some t \<Rightarrow> [Op_Set (ConversationColumnKey uid i Col_UpdatedAt) (PutUint64 t)])
      @ writeConversationIndex conversation)"

definition deleteConversationIndex :: "Conversation \<Rightarrow> batch_op list" where
  "deleteConversationIndex conversation =
     [Op_Delete (ConversationIndexChannelKey (Uid conversation) (ChannelId conversation)
                   (ChannelType conversation)),
      Op_Delete (ConversationSecondIndexKey (Uid conversation) Idx_Type
                   (ucast (Type conversation)) (Id conversation))]
     @ (case CreatedAt conversation of
          None \<Rightarrow> []
        | Some t \<Rightarrow> [Op_Delete (ConversationSecondIndexKey (Uid conversation) Idx_CreatedAt t
                                 (Id conversation))])
     @ (case UpdatedAt conversation of
          None \<Rightarrow> []
        | Some t \<Rightarrow> [Op_Delete (ConversationSecondIndexKey (Uid conversation) Idx_UpdatedAt t
                                 (Id conversation))])"

text \<open>
  The body of the loop of \<open>AddOrUpdateConversations\<close> and of
  \<open>AddOrUpdateConversationsWithUser\<close> after the batch has been chosen: the writes one
  row adds to its batch. \<open>uid\<close> is the uid the old row is looked up under
  (\<open>conversation.Uid\<close> in the first function, the argument \<open>uid\<close> in the second).
  On an error \<open>GetConversation\<close> returns \<open>EmptyConversation\<close> beside it.
\<close>

definition upsertOps :: "wukongDB \<Rightarrow> string \<Rightarrow> Conversation \<Rightarrow> error + batch_op list" where
  "upsertOps wk uid conversation =
     (case (case GetConversation wk uid (ChannelId conversation) (ChannelType conversation) of
              Inl err \<Rightarrow> if err \<noteq> ErrNotFound then Inl err else Inr EmptyConversation
            | Inr old \<Rightarrow> Inr old) of
        Inl err \<Rightarrow> Inl err
      | Inr oldConversation \<Rightarrow>
          let exist = \<not> IsEmptyConversation wk oldConversation;
              del = (if exist then deleteConversationIndex (oldConversation\<lparr>CreatedAt := None\<rparr>)
                     else []);
              c1 = (if exist then conversation\<lparr>Id := Id oldConversation\<rparr> else conversation);
              c2 = (if exist then c1\<lparr>CreatedAt := None\<rparr> else c1)
          in Inr (del @ writeConversation c2))"

text \<open>\<open>userBatchMap\<close>: the batch of a shard, created on first use.\<close>

fun batchAppend :: "nat \<Rightarrow> batch_op list \<Rightarrow> (nat \<times> Batch) list \<Rightarrow> (nat \<times> Batch) list" where
  "batchAppend sh ops [] = [(sh, \<lparr>batch_shard = sh, batch_ops = ops\<rparr>)]"
| "batchAppend sh ops ((sh', b) # m) =
     (if sh' = sh then (sh', b\<lparr>batch_ops := batch_ops b @ ops\<rparr>) # m
      else (sh', b) # batchAppend sh ops m)"

fun addLoop :: "wukongDB \<Rightarrow> Conversation list \<Rightarrow> (nat \<times> Batch) list \<Rightarrow> error + (nat \<times> Batch) list" where
  "addLoop wk [] userBatchMap = Inr userBatchMap"
| "addLoop wk (conversation # cs) userBatchMap =
     (case upsertOps wk (Uid conversation) conversation of
        Inl err \<Rightarrow> Inl err
      | Inr ops \<Rightarrow> addLoop wk cs (batchAppend (shardId wk (Uid conversation)) ops userBatchMap))"

text \<open>
  \<open>setConversationLocalUserRelation\<close>: one batch per uid, opened on the shard of the
  channel of the first row of that uid; with \<open>commitWait\<close> the batches go through
  \<open>Commits\<close>, otherwise each is committed in turn and the first error is returned.
\<close>

fun relationAdd :: "wukongDB \<Rightarrow> Conversation \<Rightarrow> (string \<times> Batch) list \<Rightarrow> (string \<times> Batch) list" where
  "relationAdd wk c [] =
     [(Uid c, \<lparr>batch_shard = channelShardId wk (ChannelId c) (ChannelType c),
               batch_ops = [Op_Set (ConversationLocalUserKey (ChannelId c) (ChannelType c) (Uid c)) []]\<rparr>)]"
| "relationAdd wk c ((u, b) # m) =
     (if u = Uid c
      then (u, b\<lparr>batch_ops := batch_ops b
                   @ [Op_Set (ConversationLocalUserKey (ChannelId c) (ChannelType c) (Uid c)) []]\<rparr>) # m
      else (u, b) # relationAdd wk c m)"

definition setConversationLocalUserRelation ::
  "(nat \<Rightarrow> error option) \<Rightarrow> wukongDB \<Rightarrow> Conversation list \<Rightarrow> bool \<Rightarrow> error option \<times> (nat \<Rightarrow> kv)" where
  "setConversationLocalUserRelation outcome wk conversations commitWait =
     (let batchs = map snd (foldl (\<lambda>m c. relationAdd wk c m) [] conversations)
      in if commitWait then Commits outcome 0 batchs (dbs wk)
         else commitEach outcome 0 batchs (dbs wk))"

text \<open>
  \<open>AddOrUpdateConversations\<close>. \<open>relOutcome\<close> gives the outcomes of the commits of the
  reverse-index batches, \<open>commitOutcome\<close> those of the per-shard batches in \<open>Commits\<close>.
  The result is the returned error and the store afterwards.
\<close>

definition AddOrUpdateConversations ::
  "(nat \<Rightarrow> error option) \<Rightarrow> (nat \<Rightarrow> error option) \<Rightarrow> wukongDB \<Rightarrow> Conversation list
     \<Rightarrow> error option \<times> wukongDB" where
  "AddOrUpdateConversations relOutcome commitOutcome wk conversations =
     (if length conversations = 0 then (None, wk)
      else
        (case addLoop wk conversations [] of
           Inl err \<Rightarrow> (Some err, wk)
         | Inr userBatchMap \<Rightarrow>
             (case setConversationLocalUserRelation relOutcome wk conversations False of
                (Some err, shards1) \<Rightarrow> (Some err, wk\<lparr>dbs := shards1\<rparr>)
              | (None, shards1) \<Rightarrow>
                  (case Commits commitOutcome 0 (map snd userBatchMap) shards1 of
                     (Some err, shards2) \<Rightarrow> (None, wk\<lparr>dbs := shards2\<rparr>)
                   | (None, shards2) \<Rightarrow>
                       (None, wk\<lparr>dbs := shards2,
                                 conversationCache :=
                                   UpdateConversationsInCache wk conversations
                                     (conversationCache wk)\<rparr>)))))"



definition UpdateConversationIfSeqGreaterAsync ::
  "error option \<Rightarrow> wukongDB \<Rightarrow> string \<Rightarrow> string \<Rightarrow> byte \<Rightarrow> u64 \<Rightarrow> error option \<times> wukongDB" where
  "UpdateConversationIfSeqGreaterAsync commitOutcome wk uid channelId channelType readToMsgSeq =
     (case GetConversation wk uid channelId channelType of
        Inl err \<Rightarrow> (Some err, wk)
      | Inr existConversation \<Rightarrow>
          if IsEmptyConversation wk existConversation then (None, wk)
          else if ReadToMsgSeq existConversation \<ge> readToMsgSeq then (None, wk)
          else
            let w = \<lparr>batch_shard = shardId wk uid,
                     batch_ops = [Op_Set (ConversationColumnKey uid (Id existConversation)
                                            Col_ReadedToMsgSeq) (PutUint64 readToMsgSeq)]\<rparr>;
                wk1 = wk\<lparr>conversationCache := InvalidateUserConversations (conversationCache wk) uid\<rparr>
            in (case Commit commitOutcome w (dbs wk1) of
                  (err, shards1) \<Rightarrow> (err, wk1\<lparr>dbs := shards1\<rparr>)))"

subsection \<open>Deleting rows\<close>

definition deleteConversation :: "wukongDB \<Rightarrow> string \<Rightarrow> string \<Rightarrow> byte \<Rightarrow> error + batch_op list" where
  "deleteConversation wk uid channelId channelType =
     (case getConversations wk uid channelId channelType of
        Inl err \<Rightarrow> if err \<noteq> ErrNotFound then Inl err else Inr []
      | Inr oldConversations \<Rightarrow>
          Inr (concat (map (\<lambda>oldConversation.
                              deleteConversationIndex oldConversation
                              @ [Op_DeleteRange uid (Id oldConversation)]) oldConversations)))"

definition deleteConversationLocalUserRelation ::
  "error option \<Rightarrow> wukongDB \<Rightarrow> string \<Rightarrow> byte \<Rightarrow> string \<Rightarrow> error option \<times> (nat \<Rightarrow> kv)" where
  "deleteConversationLocalUserRelation outcome wk channelId channelType uid =
     Commit outcome \<lparr>batch_shard = channelShardId wk channelId channelType,
                     batch_ops = [Op_Delete (ConversationLocalUserKey channelId channelType uid)]\<rparr>
       (dbs wk)"

definition DeleteConversation ::
  "error option \<Rightarrow> error option \<Rightarrow> wukongDB \<Rightarrow> string \<Rightarrow> string \<Rightarrow> byte \<Rightarrow> error option \<times> wukongDB" where
  "DeleteConversation relOutcome commitOutcome wk uid channelId channelType =
     (case deleteConversation wk uid channelId channelType of
        Inl err \<Rightarrow> (Some err, wk)
      | Inr ops \<Rightarrow>
          (case deleteConversationLocalUserRelation relOutcome wk channelId channelType uid of
             (Some err, shards1) \<Rightarrow> (Some err, wk\<lparr>dbs := shards1\<rparr>)
           | (None, shards1) \<Rightarrow>
               (case Commit commitOutcome \<lparr>batch_shard = shardId wk uid, batch_ops = ops\<rparr> shards1 of
                  (Some err, shards2) \<Rightarrow> (Some err, wk\<lparr>dbs := shards2\<rparr>)
                | (None, shards2) \<Rightarrow>
                    (None, wk\<lparr>dbs := shards2,
                              conversationCache :=
                                InvalidateUserConversations (conversationCache wk) uid\<rparr>))))"

text \<open>A row read from the store carries only timestamps after the epoch.\<close>

definition positiveTimes :: "Conversation \<Rightarrow> bool" where
  "positiveTimes c =
     ((case CreatedAt c of None \<Rightarrow> True | Some t \<Rightarrow> 0 <s t) \<and>
      (case UpdatedAt c of None \<Rightarrow> True | Some t \<Rightarrow> 0 <s t))"

section \<open>A concrete store\<close>

text \<open>
  An empty store with two shards, chosen by the parity of the length of the uid or of the
  channel id, in which a conversation is empty when its \<open>Uid\<close> is, and in which a write
  drops the cached lists of the users it touches. The examples below start from it.
\<close>

definition testDB :: wukongDB where
  "testDB =
     \<lparr>dbs = (\<lambda>sh. []), conversationCache = (\<lambda>uid. None),
      shardId = (\<lambda>uid. length uid mod 2),
      channelShardId = (\<lambda>channelId channelType. length channelId mod 2),
      IsEmptyConversation = (\<lambda>c. Uid c = []),
      UpdateConversationsInCache = (\<lambda>cs ca uid. if uid \<in> set (map Uid cs) then None else ca uid)\<rparr>"

definition room1_row :: Conversation where
  "room1_row =
     \<lparr>Id = 7, Uid = ''alice'', Type = 1, ChannelId = ''room1'', ChannelType = 1,
      UnreadCount = 3, ReadToMsgSeq = 40, DeletedAtMsgSeq = 0, CreatedAt = Some 5,
      UpdatedAt = Some 100\<rparr>"

definition room2_row :: Conversation where
  "room2_row =
     \<lparr>Id = 8, Uid = ''alice'', Type = 1, ChannelId = ''room2'', ChannelType = 1,
      UnreadCount = 0, ReadToMsgSeq = 0, DeletedAtMsgSeq = 0, CreatedAt = Some 6,
      UpdatedAt = Some 200\<rparr>"

text \<open>
  The store in which the two rows have been written: the user's shard (shard 1, which
  is also the shard of both channels) holds the two reverse-index keys and the keys of
  the two rows. It is the store \<open>AddOrUpdateConversations\<close> leaves when it is given the
  two rows on the empty store and every commit succeeds (\<open>aliceDB_reached\<close>).
\<close>

definition aliceStore :: kv where
  "aliceStore =
     [(ConversationSecondIndexKey ''alice'' Idx_UpdatedAt 200 8, []),
      (ConversationSecondIndexKey ''alice'' Idx_CreatedAt 6 8, []),
      (ConversationSecondIndexKey ''alice'' Idx_Type 1 8, []),
      (ConversationIndexChannelKey ''alice'' ''room2'' 1, [0, 0, 0, 0, 0, 0, 0, 8]),
      (ConversationColumnKey ''alice'' 8 Col_UpdatedAt, [0, 0, 0, 0, 0, 0, 0, 200]),
      (ConversationColumnKey ''alice'' 8 Col_CreatedAt, [0, 0, 0, 0, 0, 0, 0, 6]),
      (ConversationColumnKey ''alice'' 8 Col_ReadedToMsgSeq, [0, 0, 0, 0, 0, 0, 0, 0]),
      (ConversationColumnKey ''alice'' 8 Col_UnreadCount, [0, 0, 0, 0]),
      (ConversationColumnKey ''alice'' 8 Col_Type, [1]),
      (ConversationColumnKey ''alice'' 8 Col_ChannelType, [1]),
      (ConversationColumnKey ''alice'' 8 Col_ChannelId, [114, 111, 111, 109, 50]),
      (ConversationColumnKey ''alice'' 8 Col_Uid, [97, 108, 105, 99, 101]),
      (ConversationSecondIndexKey ''alice'' Idx_UpdatedAt 100 7, []),
      (ConversationSecondIndexKey ''alice'' Idx_CreatedAt 5 7, []),
      (ConversationSecondIndexKey ''alice'' Idx_Type 1 7, []),
      (ConversationIndexChannelKey ''alice'' ''room1'' 1, [0, 0, 0, 0, 0, 0, 0, 7]),
      (ConversationColumnKey ''alice'' 7 Col_UpdatedAt, [0, 0, 0, 0, 0, 0, 0, 100]),
      (ConversationColumnKey ''alice'' 7 Col_CreatedAt, [0, 0, 0, 0, 0, 0, 0, 5]),
      (ConversationColumnKey ''alice'' 7 Col_ReadedToMsgSeq, [0, 0, 0, 0, 0, 0, 0, 40]),
      (ConversationColumnKey ''alice'' 7 Col_UnreadCount, [0, 0, 0, 3]),
      (ConversationColumnKey ''alice'' 7 Col_Type, [1]),
      (ConversationColumnKey ''alice'' 7 Col_ChannelType, [1]),
      (ConversationColumnKey ''alice'' 7 Col_ChannelId, [114, 111, 111, 109, 49]),
      (ConversationColumnKey ''alice'' 7 Col_Uid, [97, 108, 105, 99, 101]),
      (ConversationLocalUserKey ''room2'' 1 ''alice'', []),
      (ConversationLocalUserKey ''room1'' 1 ''alice'', [])]"

definition aliceDB :: wukongDB where
  "aliceDB = testDB\<lparr>dbs := (\<lambda>sh. if sh = 1 then aliceStore else [])\<rparr>"


text \<open>
  A row whose \<open>UpdatedAt\<close> is the Unix epoch, \<open>time.Unix(0, 0)\<close>, and the store in which
  it has been written (\<open>epochDB_reached\<close>).
\<close>

definition epoch_row :: Conversation where
  "epoch_row =
     \<lparr>Id = 7, Uid = ''alice'', Type = 1, ChannelId = ''room1'', ChannelType = 1,
      UnreadCount = 3, ReadToMsgSeq = 40, DeletedAtMsgSeq = 0, CreatedAt = Some 5,
      UpdatedAt = Some 0\<rparr>"

definition epochStore :: kv where
  "epochStore =
     [(ConversationSecondIndexKey ''alice'' Idx_UpdatedAt 0 7, []),
      (ConversationSecondIndexKey ''alice'' Idx_CreatedAt 5 7, []),
      (ConversationSecondIndexKey ''alice'' Idx_Type 1 7, []),
      (ConversationIndexChannelKey ''alice'' ''room1'' 1, [0, 0, 0, 0, 0, 0, 0, 7]),
      (ConversationColumnKey ''alice'' 7 Col_UpdatedAt, [0, 0, 0, 0, 0, 0, 0, 0]),
      (ConversationColumnKey ''alice'' 7 Col_CreatedAt, [0, 0, 0, 0, 0, 0, 0, 5]),
      (ConversationColumnKey ''alice'' 7 Col_ReadedToMsgSeq, [0, 0, 0, 0, 0, 0, 0, 40]),
      (ConversationColumnKey ''alice'' 7 Col_UnreadCount, [0, 0, 0, 3]),
      (ConversationColumnKey ''alice'' 7 Col_Type, [1]),
      (ConversationColumnKey ''alice'' 7 Col_ChannelType, [1]),
      (ConversationColumnKey ''alice'' 7 Col_ChannelId, [114, 111, 111, 109, 49]),
      (ConversationColumnKey ''alice'' 7 Col_Uid, [97, 108, 105, 99, 101]),
      (ConversationLocalUserKey ''room1'' 1 ''alice'', [])]"

definition epochDB :: wukongDB where
  "epochDB = testDB\<lparr>dbs := (\<lambda>sh. if sh = 1 then epochStore else [])\<rparr>"

text \<open>Keys of the reverse index, as opposed to the keys that make up conversations.\<close>

fun isLocalUserKey :: "dbkey \<Rightarrow> bool" where
  "isLocalUserKey (ConversationLocalUserKey ch ct u) = True"
| "isLocalUserKey (ConversationColumnKey u j c) = False"
| "isLocalUserKey (ConversationIndexChannelKey u ch ct) = False"
| "isLocalUserKey (ConversationSecondIndexKey u x v j) = False"

text \<open>
  The index keys of a row: those \<open>writeConversationIndex\<close> sets and
  \<open>deleteConversationIndex\<close> deletes.
\<close>

definition conversationIndexKeys :: "Conversation \<Rightarrow> dbkey list" where
  "conversationIndexKeys conversation =
     [ConversationIndexChannelKey (Uid conversation) (ChannelId conversation)
        (ChannelType conversation),
      ConversationSecondIndexKey (Uid conversation) Idx_Type (ucast (Type conversation))
        (Id conversation)]
     @ (case CreatedAt conversation of
          None \<Rightarrow> []
        | Some t \<Rightarrow> [ConversationSecondIndexKey (Uid conversation) Idx_CreatedAt t
                       (Id conversation)])
     @ (case UpdatedAt conversation of
          None \<Rightarrow> []
        | Some t \<Rightarrow> [ConversationSecondIndexKey (Uid conversation) Idx_UpdatedAt t
                       (Id conversation)])"

section \<open>Properties of the connection\<close>

lemma closed_after_Close: "closed (snd (Close c))"
  by (simp add: Close_def closeNeedLock_def release_def Let_def)

lemma Write_closed: "closed c \<Longrightarrow> Write c b = ((- 1, Some ErrClosed), c)"
  by (simp add: Write_def)

lemma Flush_closed: "closed c \<Longrightarrow> Flush fdWrite c = (Some ErrClosed, c)"
  by (simp add: Flush_def)

lemma Write_after_Close:
  "Write (snd (Close c)) b = ((- 1, Some ErrClosed), snd (Close c))"
  by (rule Write_closed) (rule closed_after_Close)

lemma Flush_after_Close:
  "Flush fdWrite (snd (Close c)) = (Some ErrClosed, snd (Close c))"
  by (rule Flush_closed) (rule closed_after_Close)

lemma Read_after_Close:
  "\<not> closed c \<Longrightarrow> Read (snd (Close c)) len = ((0, None), [], snd (Close c))"
  by (simp add: Read_def Close_def closeNeedLock_def release_def Let_def ring_IsEmpty_def
      ring_Release_def)

lemma WriteToOutboundBuffer_closed:
  "closed c \<Longrightarrow> b \<noteq> [] \<Longrightarrow> WriteToOutboundBuffer c b = ((- 1, Some ErrClosed), c)"
  by (simp add: WriteToOutboundBuffer_def)

lemma WriteToOutboundBuffer_empty: "WriteToOutboundBuffer c [] = ((0, None), c)"
  by (simp add: WriteToOutboundBuffer_def)

lemma Read_never_closed_error: "snd (fst (Read c len)) \<noteq> Some ErrClosed"
  by (simp add: Read_def ring_Read_def)

text \<open>
  C1. After \<open>Close\<close>, \<open>Write\<close> and \<open>Flush\<close> return the closed error and leave the
  connection as it is (\<open>Write_after_Close\<close>, \<open>Flush_after_Close\<close>). \<open>Read\<close> has no
  check of \<open>closed\<close> and never returns the closed error
  (\<open>Read_never_closed_error\<close>): on a connection that held three unread bytes when it was
  closed, \<open>Read\<close> with a four-byte slice returns \<open>(0, nil)\<close>.
\<close>

theorem Read_after_Close_returns_nil:
  "closed (snd (Close ((newConn 0)\<lparr>inboundBuffer := [1, 2, 3]\<rparr>)))
   \<and> fst (Read (snd (Close ((newConn 0)\<lparr>inboundBuffer := [1, 2, 3]\<rparr>))) 4) = (0, None)"
  by (simp add: Read_def Close_def closeNeedLock_def release_def Let_def ring_IsEmpty_def
      ring_Release_def newConn_def)

text \<open>
  C8. \<open>TLSConn.WriteToOutboundBuffer\<close> writes to the outbound ring of the wrapped
  connection without looking at \<open>closed\<close>: on a closed TLS connection two bytes are
  accepted and appended, where \<open>DefaultConn.WriteToOutboundBuffer\<close> returns the closed
  error (\<open>WriteToOutboundBuffer_closed\<close>).
\<close>

theorem TLS_WriteToOutboundBuffer_after_Close:
  "(case TLS_WriteToOutboundBuffer
           (snd (TLS_Close \<lparr>tls_d = newConn 0, tmpInboundBuffer = []\<rparr>)) [1, 2] of
      (res, t) \<Rightarrow> res = (2, None) \<and> outboundBuffer (tls_d t) = [1, 2] \<and> closed (tls_d t))"
  by (simp add: TLS_WriteToOutboundBuffer_def TLS_Close_def Close_def closeNeedLock_def
      release_def Let_def ring_Write_def ring_Release_def newConn_def)

text \<open>
  C9. On a connection that is not closed, \<open>Write\<close> with an empty slice returns
  \<open>(0, nil)\<close> and changes nothing: the outbound buffer is as before and writable interest
  is not armed.
\<close>

theorem Write_empty_unchanged:
  "\<not> closed c \<Longrightarrow> Write c [] = ((0, None), c)"
  by (simp add: Write_def conn_write_def)

theorem Write_empty_unchanged_witness:
  "\<not> closed (newConn 0) \<and> Write (newConn 0) [] = ((0, None), newConn 0)
   \<and> \<not> writeInterest (snd (Write (newConn 0) []))"
  using Write_empty_unchanged [of "newConn 0"] by (simp add: newConn_def)

section \<open>Basic facts about the store\<close>

lemma Uint64_PutUint64: "Uint64 (PutUint64 w) = Some w"
proof -
  have "ucast (ucast w :: byte) OR push_bit 8 (ucast (ucast (drop_bit 8 w) :: byte))
        OR push_bit 16 (ucast (ucast (drop_bit 16 w) :: byte))
        OR push_bit 24 (ucast (ucast (drop_bit 24 w) :: byte))
        OR push_bit 32 (ucast (ucast (drop_bit 32 w) :: byte))
        OR push_bit 40 (ucast (ucast (drop_bit 40 w) :: byte))
        OR push_bit 48 (ucast (ucast (drop_bit 48 w) :: byte))
        OR push_bit 56 (ucast (ucast (drop_bit 56 w) :: byte)) = w"
    (is "?lhs = w")
  proof (rule bit_word_eqI)
    fix n assume "n < LENGTH(64)"
    then have n: "n < 64" by simp
    consider "n < 8" | "8 \<le> n" "n < 16" | "16 \<le> n" "n < 24" | "24 \<le> n" "n < 32"
      | "32 \<le> n" "n < 40" | "40 \<le> n" "n < 48" | "48 \<le> n" "n < 56" | "56 \<le> n" "n < 64"
      using n by linarith
    then show "bit ?lhs n = bit w n"
      by cases (simp_all add: bit_simps less_diff_conv2)
  qed
  then show ?thesis by (simp add: Uint64_def PutUint64_def)
qed

lemma Uint32_PutUint32: "Uint32 (PutUint32 w) = Some w"
proof -
  have "ucast (ucast w :: byte) OR push_bit 8 (ucast (ucast (drop_bit 8 w) :: byte))
        OR push_bit 16 (ucast (ucast (drop_bit 16 w) :: byte))
        OR push_bit 24 (ucast (ucast (drop_bit 24 w) :: byte)) = w"
    (is "?lhs = w")
  proof (rule bit_word_eqI)
    fix n assume "n < LENGTH(32)"
    then have n: "n < 32" by simp
    consider "n < 8" | "8 \<le> n" "n < 16" | "16 \<le> n" "n < 24" | "24 \<le> n" "n < 32"
      using n by linarith
    then show "bit ?lhs n = bit w n"
      by cases (simp_all add: bit_simps less_diff_conv2)
  qed
  then show ?thesis by (simp add: Uint32_def PutUint32_def)
qed

lemma string_of_bytes_of_string: "string_of_bytes (bytes_of_string s) = s"
  unfolding string_of_bytes_def bytes_of_string_def
  by (induction s) (simp_all add: unat_of_nat)

lemma kv_get_set: "kv_get (kv_set k v db) k' = (if k' = k then Some v else kv_get db k')"
  by (induction db) (auto simp: kv_get_def kv_set_def)

lemma kv_get_delete: "kv_get (kv_delete k db) k' = (if k' = k then None else kv_get db k')"
  by (induction db) (auto simp: kv_get_def kv_delete_def)

lemma kv_get_delete_range:
  "kv_get (kv_delete_range uid i db) k' = (if isColumnKeyOf uid i k' then None else kv_get db k')"
  by (induction db) (auto simp: kv_get_def kv_delete_range_def)

lemma iterateLoop_error: "iterateLoop f es p c h a = Inl e \<Longrightarrow> e = Panic"
proof (induction es arbitrary: p c h a)
  case Nil
  then show ?case by simp
next
  case (Cons x es)
  obtain i col v where x: "x = (i, col, v)" by (cases x)
  show ?case using Cons.prems Cons.IH unfolding x
    by (auto split: if_splits option.splits prod.splits)
qed

lemma iterateLoop_Cons_continue:
  "iterateLoop (\<lambda>c acc. (True, g c acc)) ((i, col, v) # es) p c h acc =
   (case setColumn col v (if p \<noteq> i then EmptyConversation\<lparr>Id := i\<rparr> else c) of
      None \<Rightarrow> Inl Panic
    | Some c' \<Rightarrow>
        iterateLoop (\<lambda>c acc. (True, g c acc)) es i c' True
          (if p \<noteq> i \<and> p \<noteq> 0 then g c acc else acc))"
  by (simp split: option.splits)

lemma iterateLoop_collect_acc:
  "iterateLoop (\<lambda>c acc. (True, acc @ [c])) es p c h acc =
   (case iterateLoop (\<lambda>c acc. (True, acc @ [c])) es p c h [] of
      Inl e \<Rightarrow> Inl e | Inr rows \<Rightarrow> Inr (acc @ rows))"
proof (induction es arbitrary: p c h acc)
  case Nil
  then show ?case by simp
next
  case (Cons x es)
  obtain i col v where x: "x = (i, col, v)" by (cases x)
  show ?case
  proof (cases "setColumn col v (if p \<noteq> i then EmptyConversation\<lparr>Id := i\<rparr> else c)")
    case None
    then show ?thesis unfolding x iterateLoop_Cons_continue by simp
  next
    case (Some c')
    show ?thesis unfolding x iterateLoop_Cons_continue Some option.case
      by (subst Cons.IH, subst (2) Cons.IH) (simp split: sum.splits)
  qed
qed

lemma iterateLoop_fold:
  "iterateLoop (\<lambda>c acc. (True, g c acc)) es p c h acc =
   (case iterateLoop (\<lambda>c acc. (True, acc @ [c])) es p c h [] of
      Inl e \<Rightarrow> Inl e | Inr rows \<Rightarrow> Inr (foldl (\<lambda>a r. g r a) acc rows))"
proof (induction es arbitrary: p c h acc)
  case Nil
  then show ?case by simp
next
  case (Cons x es)
  obtain i col v where x: "x = (i, col, v)" by (cases x)
  show ?case
  proof (cases "setColumn col v (if p \<noteq> i then EmptyConversation\<lparr>Id := i\<rparr> else c)")
    case None
    then show ?thesis unfolding x iterateLoop_Cons_continue by simp
  next
    case (Some c')
    show ?thesis unfolding x iterateLoop_Cons_continue Some option.case
      by (subst Cons.IH, subst iterateLoop_collect_acc) (simp split: sum.splits)
  qed
qed

lemma foldl_filter_collect:
  "foldl (\<lambda>a r. if P r then a @ [r] else a) acc rows = acc @ filter P rows"
  by (induction rows arbitrary: acc) auto

lemma set_insertBy: "set (insertBy lt x xs) = insert x (set xs)"
  by (induction xs) auto

lemma mset_insertBy: "mset (insertBy lt x xs) = add_mset x (mset xs)"
  by (induction xs) auto

lemma mset_sort_Slice: "mset (sort_Slice lt xs) = mset xs"
  by (induction xs) (simp_all add: sort_Slice_def mset_insertBy)

lemma sorted_insertBy:
  assumes asym: "\<And>a b. lt a b \<Longrightarrow> \<not> lt b a"
    and ntrans: "\<And>a b c. \<not> lt a b \<Longrightarrow> \<not> lt b c \<Longrightarrow> \<not> lt a c"
  shows "sorted_wrt (\<lambda>a b. \<not> lt b a) xs \<Longrightarrow> sorted_wrt (\<lambda>a b. \<not> lt b a) (insertBy lt x xs)"
proof (induction xs)
  case Nil
  then show ?case by simp
next
  case (Cons y ys)
  show ?case
  proof (cases "lt y x")
    case True
    then show ?thesis using Cons asym by (auto simp: set_insertBy)
  next
    case False
    then show ?thesis using Cons ntrans by auto
  qed
qed

lemma sorted_sort_Slice:
  assumes asym: "\<And>a b. lt a b \<Longrightarrow> \<not> lt b a"
    and ntrans: "\<And>a b c. \<not> lt a b \<Longrightarrow> \<not> lt b c \<Longrightarrow> \<not> lt a c"
  shows "sorted_wrt (\<lambda>a b. \<not> lt b a) (sort_Slice lt xs)"
proof (induction xs)
  case Nil
  then show ?case by (simp add: sort_Slice_def)
next
  case (Cons x xs)
  have "sort_Slice lt (x # xs) = insertBy lt x (sort_Slice lt xs)"
    by (simp add: sort_Slice_def)
  then show ?case using sorted_insertBy [of lt, OF asym ntrans] Cons by simp
qed

lemma lessUpdatedAt_asym: "lessUpdatedAt a b \<Longrightarrow> \<not> lessUpdatedAt b a"
  by (auto simp: lessUpdatedAt_def After_def word_sless_alt split: option.splits)

lemma lessUpdatedAt_ntrans:
  "\<not> lessUpdatedAt a b \<Longrightarrow> \<not> lessUpdatedAt b c \<Longrightarrow> \<not> lessUpdatedAt a c"
  by (auto simp: lessUpdatedAt_def After_def word_sless_alt split: option.splits)

lemma sorted_lessUpdatedAt:
  "sorted_wrt (\<lambda>a b. \<not> lessUpdatedAt b a) (sort_Slice lessUpdatedAt xs)"
  by (rule sorted_sort_Slice) (auto dest: lessUpdatedAt_asym lessUpdatedAt_ntrans)

lemma GetConversations_fold:
  "iterateConversation es (\<lambda>c acc. (True, g c acc)) acc =
   (case iterateConversation es (\<lambda>c acc. (True, acc @ [c])) [] of
      Inl e \<Rightarrow> Inl e | Inr rows \<Rightarrow> Inr (foldl (\<lambda>a r. g r a) acc rows))"
  unfolding iterateConversation_def by (rule iterateLoop_fold)

lemma GetLastConversations_miss:
  assumes "cache_GetLastConversations (conversationCache wk) uid (tp, since, excl, limit) = None"
  shows "fst (GetLastConversations wk uid tp since excl limit) =
     (case GetConversations wk uid of
        Inl e \<Rightarrow> Inl e
      | Inr rows \<Rightarrow>
          Inr (applyLimit limit (sort_Slice lessUpdatedAt (filter (lastFilter tp since excl) rows))))"
  unfolding GetLastConversations_def GetConversations_def assms option.case
  by (subst GetConversations_fold) (simp add: foldl_filter_collect Let_def split: sum.splits)

lemma getConversations_filter:
  "getConversations wk uid ch ct =
     (case GetConversations wk uid of
        Inl e \<Rightarrow> Inl e
      | Inr rows \<Rightarrow> Inr (filter (\<lambda>r. ChannelId r = ch \<and> ChannelType r = ct) rows))"
  unfolding getConversations_def GetConversations_def
  by (subst GetConversations_fold) (simp add: foldl_filter_collect split: sum.splits)

lemma lastFilter_iff:
  "lastFilter tp since excl r \<longleftrightarrow>
     Type r = tp \<and> ChannelType r \<notin> set excl \<and>
     (since = 0 \<or> (\<exists>t. UpdatedAt r = Some t \<and> since \<le> t))"
  by (auto simp: lastFilter_def split: option.splits)

lemma setColumn_positiveTimes:
  "setColumn col v c = Some c' \<Longrightarrow> positiveTimes c \<Longrightarrow> positiveTimes c'"
  by (cases col) (auto simp: setColumn_def positiveTimes_def split: option.splits list.splits if_splits)

lemma positiveTimes_new: "positiveTimes (EmptyConversation\<lparr>Id := i\<rparr>)"
  by (simp add: positiveTimes_def EmptyConversation_def)

lemma iterateLoop_positiveTimes:
  "iterateLoop (\<lambda>c acc. (True, acc @ [c])) es p c h acc = Inr rows \<Longrightarrow> positiveTimes c
     \<Longrightarrow> list_all positiveTimes acc \<Longrightarrow> list_all positiveTimes rows"
proof (induction es arbitrary: p c h acc)
  case Nil
  then show ?case by (auto split: if_splits)
next
  case (Cons x es)
  obtain i col v where x: "x = (i, col, v)" by (cases x)
  from Cons.prems(1) obtain c' where
    c': "setColumn col v (if p \<noteq> i then EmptyConversation\<lparr>Id := i\<rparr> else c) = Some c'"
    and rest: "iterateLoop (\<lambda>c acc. (True, acc @ [c])) es i c' True
                 (if p \<noteq> i \<and> p \<noteq> 0 then acc @ [c] else acc) = Inr rows"
    unfolding x iterateLoop_Cons_continue by (auto split: option.splits)
  have "positiveTimes c'"
    using c' Cons.prems(2) positiveTimes_new setColumn_positiveTimes by (auto split: if_splits)
  moreover have "list_all positiveTimes (if p \<noteq> i \<and> p \<noteq> 0 then acc @ [c] else acc)"
    using Cons.prems(2,3) by simp
  ultimately show ?case using Cons.IH [OF rest] by blast
qed

lemma GetConversations_positiveTimes:
  "GetConversations wk uid = Inr rows \<Longrightarrow> list_all positiveTimes rows"
  unfolding GetConversations_def iterateConversation_def
  by (erule iterateLoop_positiveTimes) (simp_all add: positiveTimes_def EmptyConversation_def)

lemma aliceDB_reached:
  "fst (AddOrUpdateConversations (\<lambda>i. None) (\<lambda>i. None) testDB [room1_row, room2_row]) = None
   \<and> dbs (snd (AddOrUpdateConversations (\<lambda>i. None) (\<lambda>i. None) testDB [room1_row, room2_row])) 1
       = dbs aliceDB 1
   \<and> dbs (snd (AddOrUpdateConversations (\<lambda>i. None) (\<lambda>i. None) testDB [room1_row, room2_row])) 0
       = dbs aliceDB 0"
  by code_simp

lemma epochDB_reached:
  "fst (AddOrUpdateConversations (\<lambda>i. None) (\<lambda>i. None) testDB [epoch_row]) = None
   \<and> dbs (snd (AddOrUpdateConversations (\<lambda>i. None) (\<lambda>i. None) testDB [epoch_row])) 1
       = dbs epochDB 1
   \<and> dbs (snd (AddOrUpdateConversations (\<lambda>i. None) (\<lambda>i. None) testDB [epoch_row])) 0
       = dbs epochDB 0"
  by code_simp

lemma aliceDB_miss:
  "cache_GetLastConversations (conversationCache aliceDB) ''alice'' (1, 0, [], limit) = None"
  by (simp add: aliceDB_def cache_GetLastConversations_def testDB_def)

lemma aliceDB_rows: "GetConversations aliceDB ''alice'' = Inr [room1_row, room2_row]"
  by code_simp

section \<open>GetLastConversations\<close>

text \<open>
  C5, as amended. On a cache miss, with \<open>rows\<close> the rows the scan of the user's keys
  yields, the result is the first \<open>limit\<close> elements (all of them when \<open>limit\<close> is not
  positive or not below their number) of a list \<open>all\<close> that holds exactly the rows whose
  \<open>Type\<close> is the one asked for, whose \<open>ChannelType\<close> is not excluded, and whose
  \<open>UpdatedAt\<close> is set and at least \<open>since\<close> (every row when \<open>since\<close> is 0); \<open>all\<close> is
  in descending order of \<open>UpdatedAt\<close>, rows without \<open>UpdatedAt\<close> last: a row later in
  the list that has a timestamp is preceded only by rows with a timestamp at least as
  large. The timestamps of rows read back are positive, so comparing them as unsigned or
  as signed numbers makes no difference.
\<close>

theorem GetLastConversations_sorted:
  assumes miss: "cache_GetLastConversations (conversationCache wk) uid (tp, since, excl, limit) = None"
    and rows: "GetConversations wk uid = Inr rows"
  shows "\<exists>all.
     fst (GetLastConversations wk uid tp since excl limit) =
       Inr (if limit > 0 \<and> int (length all) > limit then take (nat limit) all else all)
     \<and> mset all = mset (filter (\<lambda>r. Type r = tp \<and> ChannelType r \<notin> set excl \<and>
                                  (since = 0 \<or> (\<exists>t. UpdatedAt r = Some t \<and> since \<le> t))) rows)
     \<and> (\<forall>j < length all. \<forall>i < j.
          (case UpdatedAt (all ! j) of
             None \<Rightarrow> True
           | Some tj \<Rightarrow> (\<exists>ti. UpdatedAt (all ! i) = Some ti \<and> sint tj \<le> sint ti)))
     \<and> list_all positiveTimes all"
proof -
  let ?all = "sort_Slice lessUpdatedAt (filter (lastFilter tp since excl) rows)"
  have res: "fst (GetLastConversations wk uid tp since excl limit) =
       Inr (if limit > 0 \<and> int (length ?all) > limit then take (nat limit) ?all else ?all)"
    using GetLastConversations_miss [OF miss] rows by (simp add: applyLimit_def)
  have ms: "mset ?all = mset (filter (\<lambda>r. Type r = tp \<and> ChannelType r \<notin> set excl \<and>
                                  (since = 0 \<or> (\<exists>t. UpdatedAt r = Some t \<and> since \<le> t))) rows)"
    unfolding mset_sort_Slice using lastFilter_iff [of tp since excl]
    by (metis (mono_tags, lifting) filter_cong)
  have ord: "\<forall>j < length ?all. \<forall>i < j.
          (case UpdatedAt (?all ! j) of
             None \<Rightarrow> True
           | Some tj \<Rightarrow> (\<exists>ti. UpdatedAt (?all ! i) = Some ti \<and> sint tj \<le> sint ti))"
  proof (intro allI impI)
    fix j i assume j: "j < length ?all" and i: "i < j"
    have "\<not> lessUpdatedAt (?all ! j) (?all ! i)"
      using sorted_lessUpdatedAt [of "filter (lastFilter tp since excl) rows"] i j
      by (simp add: sorted_wrt_iff_nth_less)
    then show "case UpdatedAt (?all ! j) of
             None \<Rightarrow> True
           | Some tj \<Rightarrow> (\<exists>ti. UpdatedAt (?all ! i) = Some ti \<and> sint tj \<le> sint ti)"
      by (auto simp: lessUpdatedAt_def After_def word_sless_alt split: option.splits)
  qed
  have "set ?all \<subseteq> set rows"
    using mset_sort_Slice [of lessUpdatedAt "filter (lastFilter tp since excl) rows"]
    by (metis filter_is_subset set_mset_mset)
  then have pos: "list_all positiveTimes ?all"
    using GetConversations_positiveTimes [OF rows] by (auto simp: list_all_iff)
  show ?thesis using res ms ord pos by blast
qed

theorem GetLastConversations_sorted_witness:
  "cache_GetLastConversations (conversationCache aliceDB) ''alice'' (1, 0, [], 10) = None
   \<and> GetConversations aliceDB ''alice'' = Inr [room1_row, room2_row]
   \<and> (\<exists>all.
     fst (GetLastConversations aliceDB ''alice'' 1 0 [] 10) =
       Inr (if (10::int) > 0 \<and> int (length all) > 10 then take (nat 10) all else all)
     \<and> mset all = mset (filter (\<lambda>r. Type r = 1 \<and> ChannelType r \<notin> set [] \<and>
                                  ((0::u64) = 0 \<or> (\<exists>t. UpdatedAt r = Some t \<and> 0 \<le> t)))
                            [room1_row, room2_row])
     \<and> (\<forall>j < length all. \<forall>i < j.
          (case UpdatedAt (all ! j) of
             None \<Rightarrow> True
           | Some tj \<Rightarrow> (\<exists>ti. UpdatedAt (all ! i) = Some ti \<and> sint tj \<le> sint ti)))
     \<and> list_all positiveTimes all)"
  using GetLastConversations_sorted [OF aliceDB_miss aliceDB_rows, of 10] aliceDB_miss aliceDB_rows
  by blast

text \<open>
  Without the limit the statement fails: with two matching rows and \<open>limit = 1\<close> the
  result holds the newer row only, though the older one passes every filter.
\<close>

theorem GetLastConversations_limit_truncates:
  "cache_GetLastConversations (conversationCache aliceDB) ''alice'' (1, 0, [], 1) = None
   \<and> GetConversations aliceDB ''alice'' = Inr [room1_row, room2_row]
   \<and> lastFilter 1 0 [] room1_row
   \<and> fst (GetLastConversations aliceDB ''alice'' 1 0 [] 1) = Inr [room2_row]"
  by code_simp

text \<open>
  C6, as amended. On a cache miss, when \<open>limit\<close> is zero (or negative) or is at least
  the number of matching rows, nothing is cut off: the result is a list of exactly the
  matching rows.
\<close>

theorem GetLastConversations_no_limit:
  assumes miss: "cache_GetLastConversations (conversationCache wk) uid (tp, since, excl, limit) = None"
    and rows: "GetConversations wk uid = Inr rows"
    and lim: "limit \<le> 0 \<or> int (length (filter (lastFilter tp since excl) rows)) \<le> limit"
  shows "\<exists>all.
     fst (GetLastConversations wk uid tp since excl limit) = Inr all
     \<and> mset all = mset (filter (\<lambda>r. Type r = tp \<and> ChannelType r \<notin> set excl \<and>
                                  (since = 0 \<or> (\<exists>t. UpdatedAt r = Some t \<and> since \<le> t))) rows)"
proof -
  let ?all = "sort_Slice lessUpdatedAt (filter (lastFilter tp since excl) rows)"
  have len: "length ?all = length (filter (lastFilter tp since excl) rows)"
    using mset_sort_Slice [of lessUpdatedAt "filter (lastFilter tp since excl) rows"]
    by (metis size_mset)
  have res: "fst (GetLastConversations wk uid tp since excl limit) = Inr ?all"
    using GetLastConversations_miss [OF miss] rows lim len by (auto simp: applyLimit_def)
  have ms: "mset ?all = mset (filter (\<lambda>r. Type r = tp \<and> ChannelType r \<notin> set excl \<and>
                                  (since = 0 \<or> (\<exists>t. UpdatedAt r = Some t \<and> since \<le> t))) rows)"
    unfolding mset_sort_Slice using lastFilter_iff [of tp since excl]
    by (metis (mono_tags, lifting) filter_cong)
  show ?thesis using res ms by blast
qed

theorem GetLastConversations_no_limit_witness:
  "cache_GetLastConversations (conversationCache aliceDB) ''alice'' (1, 0, [], 0) = None
   \<and> GetConversations aliceDB ''alice'' = Inr [room1_row, room2_row]
   \<and> ((0::int) \<le> 0 \<or> int (length (filter (lastFilter 1 0 []) [room1_row, room2_row])) \<le> 0)
   \<and> (\<exists>all.
     fst (GetLastConversations aliceDB ''alice'' 1 0 [] 0) = Inr all
     \<and> mset all = mset (filter (\<lambda>r. Type r = 1 \<and> ChannelType r \<notin> set [] \<and>
                                  ((0::u64) = 0 \<or> (\<exists>t. UpdatedAt r = Some t \<and> 0 \<le> t)))
                            [room1_row, room2_row]))"
proof -
  have lim: "(0::int) \<le> 0 \<or> int (length (filter (lastFilter 1 0 []) [room1_row, room2_row])) \<le> 0"
    by simp
  show ?thesis
    using GetLastConversations_no_limit [OF aliceDB_miss aliceDB_rows lim] aliceDB_miss aliceDB_rows
    by blast
qed

text \<open>
  With \<open>limit = 0\<close> the result is not empty: the guard \<open>limit > 0\<close> makes zero mean
  "no limit", and both rows come back.
\<close>

theorem GetLastConversations_limit_zero_returns_all:
  "cache_GetLastConversations (conversationCache aliceDB) ''alice'' (1, 0, [], 0) = None
   \<and> fst (GetLastConversations aliceDB ''alice'' 1 0 [] 0) = Inr [room2_row, room1_row]"
  by code_simp

section \<open>GetConversations and UpdateConversationIfSeqGreaterAsync\<close>

lemma map_filter_None: "(\<forall>p \<in> set xs. f p = None) \<Longrightarrow> List.map_filter f xs = []"
  by (induction xs) (auto simp: List.map_filter_def)

lemma primaryEntries_no_rows:
  "(\<forall>p \<in> set db. columnKeyId uid (fst p) = None) \<Longrightarrow> primaryEntries db uid = []"
  by (simp add: primaryEntries_def primaryIds_def map_filter_None)

text \<open>
  C10. When the shard of the uid holds no column key of that uid, \<open>GetConversations\<close>
  returns the empty list and no error; and whatever the shard holds, it never returns
  the \<open>ErrNotFound\<close> sentinel.
\<close>

theorem GetConversations_no_rows:
  "((\<forall>p \<in> set (shardDB wk uid). columnKeyId uid (fst p) = None)
      \<longrightarrow> GetConversations wk uid = Inr [])
   \<and> GetConversations wk uid \<noteq> Inl ErrNotFound"
proof -
  have "GetConversations wk uid \<noteq> Inl ErrNotFound"
    unfolding GetConversations_def iterateConversation_def
    using iterateLoop_error by fastforce
  then show ?thesis
    by (auto simp: GetConversations_def iterateConversation_def primaryEntries_no_rows)
qed

theorem GetConversations_no_rows_witness:
  "list_all (\<lambda>p. columnKeyId ''bob'' (fst p) = None) (shardDB aliceDB ''bob'')
   \<and> shardDB aliceDB ''bob'' \<noteq> []
   \<and> GetConversations aliceDB ''bob'' = Inr []
   \<and> GetConversations aliceDB ''bob'' \<noteq> Inl ErrNotFound"
proof -
  have h: "list_all (\<lambda>p. columnKeyId ''bob'' (fst p) = None) (shardDB aliceDB ''bob'')"
    by code_simp
  have ne: "shardDB aliceDB ''bob'' \<noteq> []" by code_simp
  show ?thesis
    using GetConversations_no_rows [of aliceDB "''bob''"] h ne by (simp add: list_all_iff)
qed

text \<open>
  C4. With no row for the key, \<open>GetConversation\<close> returns \<open>ErrNotFound\<close>, and
  \<open>UpdateConversationIfSeqGreaterAsync\<close> returns that error at once: the test
  \<open>IsEmptyConversation\<close> that would make the call a silent no-op is never reached. The
  other two cases are as specified (\<open>UpdateConversationIfSeqGreaterAsync_not_greater\<close>,
  \<open>UpdateConversationIfSeqGreaterAsync_greater\<close>).
\<close>

theorem UpdateConversationIfSeqGreaterAsync_missing_row:
  "GetConversation testDB ''alice'' ''room1'' 1 = Inl ErrNotFound
   \<and> fst (UpdateConversationIfSeqGreaterAsync None testDB ''alice'' ''room1'' 1 50)
       = Some ErrNotFound"
  by code_simp

lemma UpdateConversationIfSeqGreaterAsync_not_greater:
  "GetConversation wk uid ch ct = Inr c \<Longrightarrow> readTo \<le> ReadToMsgSeq c
     \<Longrightarrow> UpdateConversationIfSeqGreaterAsync outcome wk uid ch ct readTo = (None, wk)"
  by (simp add: UpdateConversationIfSeqGreaterAsync_def)

lemma UpdateConversationIfSeqGreaterAsync_greater:
  assumes "GetConversation wk uid ch ct = Inr c" "\<not> IsEmptyConversation wk c"
    "ReadToMsgSeq c < readTo"
  shows "UpdateConversationIfSeqGreaterAsync None wk uid ch ct readTo =
     (None, wk\<lparr>conversationCache := InvalidateUserConversations (conversationCache wk) uid,
               dbs := (dbs wk)(shardId wk uid :=
                 kv_set (ConversationColumnKey uid (Id c) Col_ReadedToMsgSeq) (PutUint64 readTo)
                   (shardDB wk uid))\<rparr>)"
  using assms
  by (simp add: UpdateConversationIfSeqGreaterAsync_def Commit_def apply_ops_def shardDB_def
      Let_def not_le)

section \<open>AddOrUpdateConversations\<close>

lemma apply_ops_Nil [simp]: "apply_ops [] db = db"
  by (simp add: apply_ops_def)

lemma apply_ops_Cons [simp]: "apply_ops (op # ops) db = apply_ops ops (apply_op db op)"
  by (simp add: apply_ops_def)


lemmas kv_get_simps = kv_get_set kv_get_delete kv_get_delete_range

lemma setConversationLocalUserRelation_single:
  "setConversationLocalUserRelation outcome wk [c] False =
     Commit (outcome 0)
       \<lparr>batch_shard = channelShardId wk (ChannelId c) (ChannelType c),
        batch_ops = [Op_Set (ConversationLocalUserKey (ChannelId c) (ChannelType c) (Uid c)) []]\<rparr>
       (dbs wk)"
  by (simp add: setConversationLocalUserRelation_def split: prod.splits option.splits)

lemma kv_get_apply_ops_cong:
  "kv_get db1 k = kv_get db2 k \<Longrightarrow> kv_get (apply_ops ops db1) k = kv_get (apply_ops ops db2) k"
proof (induction ops arbitrary: db1 db2)
  case Nil
  then show ?case by simp
next
  case (Cons op ops)
  have "kv_get (apply_op db1 op) k = kv_get (apply_op db2 op) k"
    using Cons.prems by (cases op) (simp_all add: kv_get_simps)
  then show ?case using Cons.IH [of "apply_op db1 op" "apply_op db2 op"] by simp
qed





text \<open>
  C3, as amended. For a non-empty list whose rows can all be read, the error returned is
  the one of the commits of the reverse-index batches in
  \<open>setConversationLocalUserRelation\<close>, whatever the commits of the per-shard batches
  report: a failure of \<open>Commits\<close> is logged and \<open>nil\<close> is returned, a failure to
  commit a reverse-index batch is returned to the caller.
\<close>

theorem AddOrUpdateConversations_returned_error:
  assumes "conversations \<noteq> []" and "addLoop wk conversations [] = Inr userBatchMap"
  shows "fst (AddOrUpdateConversations relOutcome commitOutcome wk conversations) =
         fst (setConversationLocalUserRelation relOutcome wk conversations False)"
  using assms
  by (auto simp: AddOrUpdateConversations_def split: prod.splits option.splits)

theorem AddOrUpdateConversations_returned_error_witness:
  "[room1_row] \<noteq> []
   \<and> addLoop testDB [room1_row] [] =
       Inr [(1, \<lparr>batch_shard = 1, batch_ops = writeConversation room1_row\<rparr>)]
   \<and> fst (Commits (\<lambda>i. Some (ErrOther 2)) 0
            [\<lparr>batch_shard = 1, batch_ops = writeConversation room1_row\<rparr>] (dbs testDB))
       = Some (ErrOther 2)
   \<and> fst (setConversationLocalUserRelation (\<lambda>i. None) testDB [room1_row] False) = None
   \<and> fst (AddOrUpdateConversations (\<lambda>i. None) (\<lambda>i. Some (ErrOther 2)) testDB [room1_row]) = None"
proof -
  have ne: "[room1_row] \<noteq> []" by simp
  have loop: "addLoop testDB [room1_row] [] =
       Inr [(1, \<lparr>batch_shard = 1, batch_ops = writeConversation room1_row\<rparr>)]"
    by code_simp
  have com: "fst (Commits (\<lambda>i. Some (ErrOther 2)) 0
            [\<lparr>batch_shard = 1, batch_ops = writeConversation room1_row\<rparr>] (dbs testDB))
       = Some (ErrOther 2)"
    by (simp add: Commit_def)
  have rel: "fst (setConversationLocalUserRelation (\<lambda>i. None) testDB [room1_row] False) = None"
    by (simp add: setConversationLocalUserRelation_single Commit_def)
  show ?thesis
    using AddOrUpdateConversations_returned_error [OF ne loop, of "\<lambda>i. None" "\<lambda>i. Some (ErrOther 2)"]
      ne loop com rel by simp
qed

text \<open>
  A commit error that is propagated: the commit of the reverse-index batch fails, and
  \<open>AddOrUpdateConversations\<close> returns its error.
\<close>

theorem AddOrUpdateConversations_relation_commit_error:
  "fst (AddOrUpdateConversations (\<lambda>i. Some (ErrOther 1)) (\<lambda>i. None) testDB [room1_row])
     = Some (ErrOther 1)"
  by code_simp

lemma kv_get_not_local:
  "\<not> isLocalUserKey k \<Longrightarrow> kv_get (kv_set (ConversationLocalUserKey ch ct u) v db) k = kv_get db k"
  "\<not> isLocalUserKey k \<Longrightarrow> kv_get (kv_delete (ConversationLocalUserKey ch ct u) db) k = kv_get db k"
  by (cases k; simp add: kv_get_simps)+








section \<open>DeleteConversation\<close>

lemma deleteConversationIndex_keys:
  "deleteConversationIndex r = map Op_Delete (conversationIndexKeys r)"
  by (simp add: deleteConversationIndex_def conversationIndexKeys_def split: option.splits)

lemma writeConversationIndex_keys:
  "map (\<lambda>op. case op of Op_Set k v \<Rightarrow> k | Op_Delete k \<Rightarrow> k
                 | Op_DeleteRange u i \<Rightarrow> ConversationColumnKey u i Col_Uid)
     (writeConversationIndex r) = conversationIndexKeys r"
  by (simp add: writeConversationIndex_def conversationIndexKeys_def split: option.splits)

text \<open>A batch without \<open>Set\<close> never brings a key back.\<close>

lemma deletes_keep_absent:
  "\<forall>op \<in> set ops. \<forall>k v. op \<noteq> Op_Set k v \<Longrightarrow> kv_get db k = None
     \<Longrightarrow> kv_get (apply_ops ops db) k = None"
proof (induction ops arbitrary: db)
  case Nil
  then show ?case by simp
next
  case (Cons op ops)
  have "kv_get (apply_op db op) k = None"
    using Cons.prems by (cases op) (auto simp: kv_get_simps)
  then show ?case using Cons.IH [of "apply_op db op"] Cons.prems(1) by simp
qed

lemma deletes_remove_key:
  "\<forall>op \<in> set ops. \<forall>k v. op \<noteq> Op_Set k v \<Longrightarrow> Op_Delete k \<in> set ops
     \<Longrightarrow> kv_get (apply_ops ops db) k = None"
proof (induction ops arbitrary: db)
  case Nil
  then show ?case by simp
next
  case (Cons op ops)
  show ?case
  proof (cases "op = Op_Delete k")
    case True
    have "kv_get (apply_op db op) k = None" using True by (simp add: kv_get_simps)
    then show ?thesis using deletes_keep_absent [of ops "apply_op db op" k] Cons.prems(1) by simp
  next
    case False
    then show ?thesis using Cons.IH [of "apply_op db op"] Cons.prems by simp
  qed
qed

lemma deletes_remove_range:
  "\<forall>op \<in> set ops. \<forall>k v. op \<noteq> Op_Set k v \<Longrightarrow> Op_DeleteRange uid i \<in> set ops
     \<Longrightarrow> kv_get (apply_ops ops db) (ConversationColumnKey uid i col) = None"
proof (induction ops arbitrary: db)
  case Nil
  then show ?case by simp
next
  case (Cons op ops)
  show ?case
  proof (cases "op = Op_DeleteRange uid i")
    case True
    have "kv_get (apply_op db op) (ConversationColumnKey uid i col) = None"
      using True by (simp add: kv_get_simps)
    then show ?thesis
      using deletes_keep_absent [of ops "apply_op db op" "ConversationColumnKey uid i col"]
        Cons.prems(1) by simp
  next
    case False
    then show ?thesis using Cons.IH [of "apply_op db op"] Cons.prems by simp
  qed
qed

lemma DeleteConversation_result:
  assumes "getConversations wk uid ch ct = Inr olds"
  shows "DeleteConversation None None wk uid ch ct =
     (None, wk\<lparr>dbs := ((dbs wk)(channelShardId wk ch ct :=
                 apply_ops [Op_Delete (ConversationLocalUserKey ch ct uid)]
                   (dbs wk (channelShardId wk ch ct))))
               (shardId wk uid :=
                 apply_ops (concat (map (\<lambda>x. deleteConversationIndex x
                                            @ [Op_DeleteRange uid (Id x)]) olds))
                   (((dbs wk)(channelShardId wk ch ct :=
                      apply_ops [Op_Delete (ConversationLocalUserKey ch ct uid)]
                        (dbs wk (channelShardId wk ch ct)))) (shardId wk uid))),
               conversationCache := InvalidateUserConversations (conversationCache wk) uid\<rparr>)"
  using assms
  by (simp add: DeleteConversation_def deleteConversation_def
      deleteConversationLocalUserRelation_def Commit_def)

lemma DeleteConversation_store:
  assumes olds: "getConversations wk uid ch ct = Inr olds" and k: "\<not> isLocalUserKey k"
  shows "kv_get (shardDB (snd (DeleteConversation None None wk uid ch ct)) uid) k =
         kv_get (apply_ops (concat (map (\<lambda>x. deleteConversationIndex x
                                            @ [Op_DeleteRange uid (Id x)]) olds))
                   (shardDB wk uid)) k"
  unfolding DeleteConversation_result [OF olds]
  using k by (auto simp: shardDB_def kv_get_not_local intro!: kv_get_apply_ops_cong)

text \<open>
  What \<open>DeleteConversation\<close> removes, in general. Let the scan find the rows \<open>olds\<close>
  for the channel, one of them carrying the uid, and let both commits succeed. Then
  \<open>GetConversation\<close> returns \<open>ErrNotFound\<close>, and for every row found all its columns
  and all the index keys computed from the row as it was read are gone.
\<close>

lemma DeleteConversation_removes:
  assumes olds: "getConversations wk uid ch ct = Inr olds"
    and own: "\<exists>r \<in> set olds. Uid r = uid"
  shows "fst (DeleteConversation None None wk uid ch ct) = None
    \<and> GetConversation (snd (DeleteConversation None None wk uid ch ct)) uid ch ct = Inl ErrNotFound
    \<and> (\<forall>r \<in> set olds.
          (\<forall>k \<in> set (conversationIndexKeys r).
             kv_get (shardDB (snd (DeleteConversation None None wk uid ch ct)) uid) k = None)
          \<and> (\<forall>col. kv_get (shardDB (snd (DeleteConversation None None wk uid ch ct)) uid)
                      (ConversationColumnKey uid (Id r) col) = None))"
proof -
  let ?ops = "concat (map (\<lambda>x. deleteConversationIndex x @ [Op_DeleteRange uid (Id x)]) olds)"
  let ?wk = "snd (DeleteConversation None None wk uid ch ct)"
  have nos: "\<forall>op \<in> set ?ops. \<forall>k v. op \<noteq> Op_Set k v"
    by (auto simp: deleteConversationIndex_keys)
  have ok: "fst (DeleteConversation None None wk uid ch ct) = None"
    by (simp add: DeleteConversation_result [OF olds])
  have idx: "kv_get (shardDB ?wk uid) k = None"
    if r: "r \<in> set olds" and k: "k \<in> set (conversationIndexKeys r)" for r k
  proof -
    have nl: "\<not> isLocalUserKey k"
      using k by (auto simp: conversationIndexKeys_def split: option.splits)
    have "Op_Delete k \<in> set ?ops"
      using r k by (auto simp: deleteConversationIndex_keys)
    then show ?thesis
      using DeleteConversation_store [OF olds nl] deletes_remove_key [OF nos] by simp
  qed
  have cols: "kv_get (shardDB ?wk uid) (ConversationColumnKey uid (Id r) col) = None"
    if r: "r \<in> set olds" for r col
  proof -
    have "Op_DeleteRange uid (Id r) \<in> set ?ops"
      using r by auto
    then show ?thesis
      using DeleteConversation_store [OF olds, of "ConversationColumnKey uid (Id r) col"]
        deletes_remove_range [OF nos] by simp
  qed
  obtain r where r: "r \<in> set olds" and u: "Uid r = uid"
    using own by blast
  have "ChannelId r = ch \<and> ChannelType r = ct"
    using olds r unfolding getConversations_filter by (auto split: sum.splits)
  then have "ConversationIndexChannelKey uid ch ct \<in> set (conversationIndexKeys r)"
    using u by (simp add: conversationIndexKeys_def)
  then have "kv_get (shardDB ?wk uid) (ConversationIndexChannelKey uid ch ct) = None"
    using idx [OF r] by simp
  then have nf: "GetConversation ?wk uid ch ct = Inl ErrNotFound"
    by (simp add: GetConversation_def getConversationIdByChannel_def)
  show ?thesis using ok nf idx cols by blast
qed

text \<open>
  C7. A row is written with an \<open>UpdatedAt\<close> at the Unix epoch: \<open>writeConversationIndex\<close>
  writes the key of the updatedAt index for it, since the pointer is not nil. When the row
  is read back the stored 0 fails the test \<open>tm > 0\<close>, so the row has no \<open>UpdatedAt\<close>,
  and \<open>deleteConversationIndex\<close> skips that key: after \<open>DeleteConversation\<close> has
  committed, \<open>GetConversation\<close> returns \<open>ErrNotFound\<close> but the key of the updatedAt index
  of the deleted row is still in the store.
\<close>

theorem DeleteConversation_leaves_epoch_index:
  "getConversations epochDB ''alice'' ''room1'' 1 = Inr [epoch_row\<lparr>UpdatedAt := None\<rparr>]
   \<and> fst (DeleteConversation None None epochDB ''alice'' ''room1'' 1) = None
   \<and> GetConversation (snd (DeleteConversation None None epochDB ''alice'' ''room1'' 1))
        ''alice'' ''room1'' 1 = Inl ErrNotFound
   \<and> kv_get (shardDB (snd (DeleteConversation None None epochDB ''alice'' ''room1'' 1)) ''alice'')
        (ConversationSecondIndexKey ''alice'' Idx_UpdatedAt 0 7) = Some []"
  by code_simp

end
